theory Spec2Isabelle
  imports Complex_Main "HOL-Library.Word"
begin

section \<open>femtoWorldProducerTask: data model\<close>

text \<open>
  The embedding follows \<^verbatim>\<open>femtoWorldProducerTask.cxx\<close>. C++ \<^verbatim>\<open>float\<close> and
  \<^verbatim>\<open>double\<close> values are modelled as \<^typ>\<open>real\<close> (no rounding, no NaN); where a
  property depends on which values a \<^verbatim>\<open>float\<close> can take, the \<^verbatim>\<open>float\<close> is given by its
  bit pattern (\<open>float32\<close> and \<open>valof32\<close> below). \<^verbatim>\<open>int\<close> is modelled as \<^typ>\<open>int\<close>,
  with the conversion from a 64-bit index to \<^verbatim>\<open>int\<close> written out as \<open>int32_of\<close>.
\<close>

definition int32_of :: "int \<Rightarrow> int" where
  "int32_of x = sint (word_of_int x :: 32 word)"

text \<open>
  Modelled from the spec: the selection bitmap is "packed into a fixed-width integer
  type"; the declaration of \<^verbatim>\<open>cutContainerType\<close> (\<^verbatim>\<open>FemtoWorldDerived.h\<close>) is not
  part of the sources, an unsigned 32-bit integer is used.
\<close>

type_synonym cutContainerType = "32 word"

text \<open>
  The array returned by \<^verbatim>\<open>getCutContainer\<close>; \<open>at_kV0 c\<close> is
  \<^verbatim>\<open>c.at(V0ContainerPosition::kV0)\<close>, and so on for the other four positions.
\<close>

record cutContainer =
  at_kV0 :: cutContainerType
  at_kPosCuts :: cutContainerType
  at_kPosPID :: cutContainerType
  at_kNegCuts :: cutContainerType
  at_kNegPID :: cutContainerType

text \<open>
  The track types of the framework; the task only asks whether a track is a
  \<open>Run2Tracklet\<close>.
\<close>

datatype TrackTypeEnum = Track | Run2Track | Run2Tracklet

text \<open>The particle types that the task writes.\<close>

datatype ParticleType = kTrack | kV0 | kV0Child | kPhi | kPhiChild

text \<open>A row of the joined track table, with the accessors the task reads.\<close>

record track =
  globalIndex :: int
  trackType :: TrackTypeEnum
  pt :: real
  eta :: real
  phi :: real
  p :: real
  dcaXY :: real
  sign :: int
  beta :: real
  itsChi2NCl :: real
  tpcChi2NCl :: real
  tpcNSigmaKa :: real
  tofNSigmaKa :: real

text \<open>
  A row of the V0 table. \<open>posTrack\<close> and \<open>negTrack\<close> are the rows that
  \<^verbatim>\<open>posTrack_as\<close> and \<^verbatim>\<open>negTrack_as\<close> dereference.
\<close>

record v0data =
  posTrackId :: int
  negTrackId :: int
  posTrack :: track
  negTrack :: track
  positivept :: real
  positiveeta :: real
  positivephi :: real
  negativept :: real
  negativeeta :: real
  negativephi :: real
  v0pt :: real
  v0eta :: real
  v0phi :: real
  mLambda :: real
  mAntiLambda :: real

record bcWithTimestamp =
  runNumber :: int
  timestamp :: nat

text \<open>A row of the joined collision table; \<open>bc\<close> is what \<^verbatim>\<open>bc_as\<close> dereferences.\<close>

record collision =
  bc :: bcWithTimestamp
  posX :: real
  posY :: real
  posZ :: real
  multFV0M :: real
  multFT0M :: real

record GRPObject =
  nominalL3Field :: int

text \<open>A row of the output collision table.\<close>

record collRow =
  c_posZ :: real
  c_mult :: real
  c_sphericity :: real
  c_magField :: real

text \<open>
  A row of the output particle table: the first nineteen arguments of
  \<^verbatim>\<open>outputParts(...)\<close>. The remaining arguments are detector-level observables copied
  from the same track (or constants); no property below reads them.
\<close>

record partRow =
  r_collisionId :: int
  r_pt :: real
  r_eta :: real
  r_phi :: real
  r_p :: real
  r_mass :: real
  r_partType :: ParticleType
  r_cut :: cutContainerType
  r_pidcut :: cutContainerType
  r_tempFitVar :: real
  r_childrenIds :: "int \<times> int"
  r_mLambda :: real
  r_mAntiLambda :: real
  r_sign :: int
  r_beta :: real
  r_itsChi2NCl :: real
  r_tpcChi2NCl :: real
  r_tpcNSigmaKaon :: real
  r_tofNSigmaKaon :: real

text \<open>The result of \<^verbatim>\<open>TLorentzVector\<close> arithmetic that the task reads back.\<close>

record fourVec =
  vEta :: real
  vPhi :: real
  vPt :: real
  vP :: real
  vM :: real

text \<open>
  The configurables that \<^verbatim>\<open>processProd\<close> and \<^verbatim>\<open>IsKaonNSigma\<close> read.
  (\<^verbatim>\<open>ConfRejectITSHitandTOFMissing\<close> guards an empty block and is left out.)
\<close>

record config =
  ConfIsTrigger :: bool
  ConfIsRun3 :: bool
  ConfStoreV0 :: bool
  ConfStorePhi :: bool
  ConfInvMassLowLimitPhi :: real
  ConfInvMassUpLimitPhi :: real
  ConfNsigmaTPCTOFKaon :: bool
  ConfNsigmaCombinedKaon :: real
  ConfNsigmaTPCKaon :: real

text \<open>The values the source declares as defaults.\<close>

definition defaultConf :: config where
  "defaultConf = \<lparr> ConfIsTrigger = False, ConfIsRun3 = False, ConfStoreV0 = True,
     ConfStorePhi = True,
     ConfInvMassLowLimitPhi = 1.005, ConfInvMassUpLimitPhi = 1.035,
     ConfNsigmaTPCTOFKaon = True, ConfNsigmaCombinedKaon = 5, ConfNsigmaTPCKaon = 5 \<rparr>"

section \<open>The kaon PID gate\<close>

definition Hypot :: "real \<Rightarrow> real \<Rightarrow> real" where
  "Hypot x y = sqrt (x * x + y * y)"

text \<open>
  The three arguments are \<^verbatim>\<open>float\<close>s, given by the real numbers they denote; the
  momentum that a caller passes is the value of a binary32 pattern (\<open>valof32\<close> below).
  The literal \<^verbatim>\<open>0.4\<close> is a \<^verbatim>\<open>double\<close>; no binary32 value lies between 0.4 and that
  \<^verbatim>\<open>double\<close>, so on every \<^verbatim>\<open>float\<close> momentum the comparisons with the real number 0.4
  below take the branch the source takes (lemma \<open>valof32_branches\<close>).
\<close>

definition IsKaonNSigma :: "config \<Rightarrow> real \<Rightarrow> real \<Rightarrow> real \<Rightarrow> bool" where
  "IsKaonNSigma cfg mom nsigmaTPCK nsigmaTOFK =
     (if ConfNsigmaTPCTOFKaon cfg then
        (if mom < 0.4 then
           (if \<bar>nsigmaTPCK\<bar> < ConfNsigmaTPCKaon cfg then True else False)
         else if mom > 0.4 then
           (if Hypot nsigmaTOFK nsigmaTPCK < ConfNsigmaCombinedKaon cfg then True else False)
         else False)
      else False)"

subsection \<open>Float momenta\<close>

text \<open>
  The momentum that \<^verbatim>\<open>IsKaonNSigma\<close> receives is a C++ \<^verbatim>\<open>float\<close>: an IEEE 754
  binary32 value, given here by its 32-bit pattern (one sign bit, eight exponent bits,
  23 fraction bits). \<open>valof32\<close> is the real number that a finite pattern denotes.
  The literal \<^verbatim>\<open>0.4\<close> of the source is a \<^verbatim>\<open>double\<close>, the binary64 value nearest to
  0.4 (\<open>double_0_4\<close>); \<open>float_0_4\<close> is the pattern \<^verbatim>\<open>0x3ECCCCCD\<close> of \<^verbatim>\<open>0.4f\<close>, the
  binary32 value nearest to 0.4, and \<open>float_0_3\<close> the pattern \<^verbatim>\<open>0x3E99999A\<close> of
  \<^verbatim>\<open>0.3f\<close>.
\<close>

type_synonym float32 = "32 word"

definition f32_sign :: "float32 \<Rightarrow> bool" where
  "f32_sign w \<longleftrightarrow> 2 ^ 31 \<le> unat w"

definition f32_exponent :: "float32 \<Rightarrow> nat" where
  "f32_exponent w = unat w div 2 ^ 23 mod 256"

definition f32_fraction :: "float32 \<Rightarrow> nat" where
  "f32_fraction w = unat w mod 2 ^ 23"

definition isFinite32 :: "float32 \<Rightarrow> bool" where
  "isFinite32 w \<longleftrightarrow> f32_exponent w \<noteq> 255"

definition valof32 :: "float32 \<Rightarrow> real" where
  "valof32 w =
     (if f32_sign w then - 1 else 1) *
     (if f32_exponent w = 0 then real (f32_fraction w) * 2 ^ 1 / 2 ^ 150
      else real (2 ^ 23 + f32_fraction w) * 2 ^ f32_exponent w / 2 ^ 150)"

definition double_0_4 :: real where
  "double_0_4 = 3602879701896397 / 9007199254740992"

definition float_0_4 :: float32 where
  "float_0_4 = 1053609165"

definition float_0_3 :: float32 where
  "float_0_3 = 1050253722"

section \<open>Effects and task state\<close>

datatype qaFill =
    ColFillQA collision
  | TrackFillQA track
  | V0FillLambdaQA v0data
  | V0FillQA v0data
  | PhiFillQAMass real track track
  | PhiFillQA track track

text \<open>
  Everything the task does to its collaborators, in the order it does it: a query to the
  conditions database, a row written to one of the two output tables, a histogram fill.
\<close>

datatype effect =
    CcdbGetForTimeStamp nat
  | OutputCollision collRow
  | OutputParts partRow
  | Fill qaFill

datatype error = FatalGRPNotFound nat

text \<open>
  The members \<^verbatim>\<open>mRunNumber\<close> and \<^verbatim>\<open>mMagField\<close>, the function-local static
  \<^verbatim>\<open>grpo\<close> of \<^verbatim>\<open>getMagneticFieldTesla\<close>, and the effects so far.
\<close>

record state =
  mRunNumber :: int
  mMagField :: real
  grpo :: "GRPObject option"
  trace :: "effect list"

text \<open>The state that \<^verbatim>\<open>init\<close> leaves, before any event.\<close>

definition initState :: state where
  "initState = \<lparr> mRunNumber = 0, mMagField = 0, grpo = None, trace = [] \<rparr>"

text \<open>
  The collaborators whose code is outside the sources: the conditions database, the
  collision, track, V0 and Phi selection classes, the particle database and the
  four-vector arithmetic. Each is a parameter of the model.
\<close>

record extern =
  ccdbGRP :: "nat \<Rightarrow> GRPObject option"
  colIsSelected :: "collision \<Rightarrow> bool"
  computeSphericity :: "collision \<Rightarrow> track list \<Rightarrow> real"
  trkIsSelectedMinimal :: "track \<Rightarrow> bool"
  v0IsSelectedMinimal :: "collision \<Rightarrow> v0data \<Rightarrow> bool"
  v0GetCutContainer :: "collision \<Rightarrow> v0data \<Rightarrow> cutContainer"
  v0cosPA :: "v0data \<Rightarrow> real \<Rightarrow> real \<Rightarrow> real \<Rightarrow> real"
  phiGetCutContainer :: "collision \<Rightarrow> track \<Rightarrow> track \<Rightarrow> cutContainer"
  pdgMass :: "int \<Rightarrow> real"
  sumPtEtaPhiM :: "real \<times> real \<times> real \<times> real \<Rightarrow> real \<times> real \<times> real \<times> real \<Rightarrow> fourVec"

definition emit :: "effect \<Rightarrow> state \<Rightarrow> state" where
  "emit e s = s\<lparr>trace := trace s @ [e]\<rparr>"

definition collisionRows :: "effect list \<Rightarrow> collRow list" where
  "collisionRows tr = [r. OutputCollision r \<leftarrow> tr]"

definition particleRows :: "effect list \<Rightarrow> partRow list" where
  "particleRows tr = [r. OutputParts r \<leftarrow> tr]"

text \<open>
  Modelled from the spec: \<^verbatim>\<open>lastIndex()\<close> of an output cursor is framework code
  outside the sources. "Indices are assigned at emission time": it is the position of
  the row written last (and \<open>-1\<close> while the table is empty).
\<close>

definition lastIndex :: "'a list \<Rightarrow> int" where
  "lastIndex rows = int (length rows) - 1"

definition outputCollision_lastIndex :: "state \<Rightarrow> int" where
  "outputCollision_lastIndex s = lastIndex (collisionRows (trace s))"

definition outputParts_lastIndex :: "state \<Rightarrow> int" where
  "outputParts_lastIndex s = lastIndex (particleRows (trace s))"

section \<open>getRowDaughters\<close>

fun getRowDaughters_from :: "nat \<Rightarrow> int \<Rightarrow> int list \<Rightarrow> int" where
  "getRowDaughters_from i daughID [] = - 1"
| "getRowDaughters_from i daughID (x # xs) =
     (if x = daughID then int32_of (int i) else getRowDaughters_from (Suc i) daughID xs)"

definition getRowDaughters :: "int \<Rightarrow> int list \<Rightarrow> int" where
  "getRowDaughters daughID vecID = getRowDaughters_from 0 daughID vecID"

section \<open>getMagneticFieldTesla\<close>

text \<open>
  \<^verbatim>\<open>LOGF(fatal, ...)\<close> ends the process: it is the error result. The static \<^verbatim>\<open>grpo\<close>
  is fetched only while it is still null.
\<close>

definition getMagneticFieldTesla :: "extern \<Rightarrow> nat \<Rightarrow> state \<Rightarrow> error + (real \<times> state)" where
  "getMagneticFieldTesla ext ts s =
     (case grpo s of
        None \<Rightarrow>
          (case ccdbGRP ext ts of
             None \<Rightarrow> Inl (FatalGRPNotFound ts)
           | Some g \<Rightarrow>
               Inr (0.1 * real_of_int (nominalL3Field g),
                    (emit (CcdbGetForTimeStamp ts) s)\<lparr>grpo := Some g\<rparr>))
      | Some g \<Rightarrow> Inr (0.1 * real_of_int (nominalL3Field g), s))"

section \<open>processProd\<close>

text \<open>The first statement of \<^verbatim>\<open>processProd\<close>: the magnetic field for the run.\<close>

definition updateMagField :: "extern \<Rightarrow> bcWithTimestamp \<Rightarrow> state \<Rightarrow> error + state" where
  "updateMagField ext b s =
     (if mRunNumber s \<noteq> runNumber b then
        (case getMagneticFieldTesla ext (timestamp b) s of
           Inl e \<Rightarrow> Inl e
         | Inr (field, s') \<Rightarrow> Inr (s'\<lparr>mMagField := field, mRunNumber := runNumber b\<rparr>))
      else Inr s)"

text \<open>
  One call of \<^verbatim>\<open>outputParts(...)\<close>. In all seven calls of the source the arguments
  from \<^verbatim>\<open>sign()\<close> to \<^verbatim>\<open>tofNSigmaKa()\<close> are read from one track, the last argument
  here.
\<close>

definition outputPartsRow ::
  "int \<Rightarrow> real \<Rightarrow> real \<Rightarrow> real \<Rightarrow> real \<Rightarrow> real \<Rightarrow> ParticleType \<Rightarrow> cutContainerType \<Rightarrow>
   cutContainerType \<Rightarrow> real \<Rightarrow> int \<times> int \<Rightarrow> real \<Rightarrow> real \<Rightarrow> track \<Rightarrow> partRow" where
  "outputPartsRow cid a_pt a_eta a_phi a_p a_mass ty a_cut a_pid fitVar childIDs mL mAL t =
     \<lparr> r_collisionId = cid, r_pt = a_pt, r_eta = a_eta, r_phi = a_phi, r_p = a_p,
       r_mass = a_mass, r_partType = ty, r_cut = a_cut, r_pidcut = a_pid,
       r_tempFitVar = fitVar, r_childrenIds = childIDs, r_mLambda = mL, r_mAntiLambda = mAL,
       r_sign = sign t, r_beta = beta t, r_itsChi2NCl = itsChi2NCl t,
       r_tpcChi2NCl = tpcChi2NCl t, r_tpcNSigmaKaon = tpcNSigmaKa t,
       r_tofNSigmaKaon = tofNSigmaKa t \<rparr>"

text \<open>The body of the loop over the tracks; the pair is \<^verbatim>\<open>tmpIDtrack\<close> and the state.\<close>

definition trackBody :: "extern \<Rightarrow> int \<times> int \<Rightarrow> track \<Rightarrow> int list \<times> state \<Rightarrow> int list \<times> state" where
  "trackBody ext childIDs t acc =
     (case acc of (tmpIDtrack, s) \<Rightarrow>
        if \<not> trkIsSelectedMinimal ext t then (tmpIDtrack, s)
        else
          let s1 = emit (Fill (TrackFillQA t)) s;
              s2 = emit (OutputParts
                     (outputPartsRow (int32_of (outputCollision_lastIndex s1))
                        (pt t) (eta t) (phi t) (p t) 1 kTrack 0 0 (dcaXY t) childIDs 0 0 t)) s1
          in (tmpIDtrack @ [int32_of (globalIndex t)], s2))"

text \<open>The body of the loop over the V0 candidates.\<close>

definition v0Body :: "extern \<Rightarrow> collision \<Rightarrow> int list \<Rightarrow> v0data \<Rightarrow> state \<Rightarrow> state" where
  "v0Body ext col tmpIDtrack v0 s =
     (let postrack = posTrack v0;
          negtrack = negTrack v0;
          s1 = emit (Fill (V0FillLambdaQA v0)) s
      in if \<not> v0IsSelectedMinimal ext col v0 then s1
         else
           let s2 = emit (Fill (V0FillQA v0)) s1;
               cutContainerV0 = v0GetCutContainer ext col v0
           in if at_kV0 cutContainerV0 > 0 \<and> at_kPosCuts cutContainerV0 > 0
                   \<and> at_kNegCuts cutContainerV0 > 0 then
                let postrackID = posTrackId v0;
                    rowInPrimaryTrackTablePos = getRowDaughters postrackID tmpIDtrack;
                    s3 = emit (OutputParts
                           (outputPartsRow (int32_of (outputCollision_lastIndex s2))
                              (positivept v0) (positiveeta v0) (positivephi v0) 0 0 kV0Child
                              (at_kPosCuts cutContainerV0) (at_kPosPID cutContainerV0) 0
                              (rowInPrimaryTrackTablePos, 0) 0 0 postrack)) s2;
                    rowOfPosTrack = int32_of (outputParts_lastIndex s3);
                    negtrackID = negTrackId v0;
                    rowInPrimaryTrackTableNeg = getRowDaughters negtrackID tmpIDtrack;
                    s4 = emit (OutputParts
                           (outputPartsRow (int32_of (outputCollision_lastIndex s3))
                              (negativept v0) (negativeeta v0) (negativephi v0) 0 0 kV0Child
                              (at_kNegCuts cutContainerV0) (at_kNegPID cutContainerV0) 0
                              (0, rowInPrimaryTrackTableNeg) 0 0 negtrack)) s3;
                    rowOfNegTrack = int32_of (outputParts_lastIndex s4)
                in emit (OutputParts
                     (outputPartsRow (int32_of (outputCollision_lastIndex s4))
                        (v0pt v0) (v0eta v0) (v0phi v0) 0 0 kV0
                        (at_kV0 cutContainerV0) 0
                        (v0cosPA ext v0 (posX col) (posY col) (posZ col))
                        (rowOfPosTrack, rowOfNegTrack) (mLambda v0) (mAntiLambda v0) postrack)) s4
              else s2)"

text \<open>
  The configurables declared inside the Phi branch are local objects, constructed with
  their default values on every call.
\<close>

definition ConfPDGCodePartOne :: int where "ConfPDGCodePartOne = 321"
definition cfgPtLowPart1 :: real where "cfgPtLowPart1 = 0.14"
definition cfgPtHighPart1 :: real where "cfgPtHighPart1 = 1.5"
definition cfgPLowPart1 :: real where "cfgPLowPart1 = 0.14"
definition cfgPHighPart1 :: real where "cfgPHighPart1 = 1.5"
definition cfgEtaLowPart1 :: real where "cfgEtaLowPart1 = - 0.8"
definition cfgEtaHighPart1 :: real where "cfgEtaHighPart1 = 0.8"
definition ConfPDGCodePartTwo :: int where "ConfPDGCodePartTwo = 321"
definition cfgPtLowPart2 :: real where "cfgPtLowPart2 = 0.14"
definition cfgPtHighPart2 :: real where "cfgPtHighPart2 = 1.5"
definition cfgPLowPart2 :: real where "cfgPLowPart2 = 0.14"
definition cfgPHighPart2 :: real where "cfgPHighPart2 = 1.5"
definition cfgEtaLowPart2 :: real where "cfgEtaLowPart2 = - 0.8"
definition cfgEtaHighPart2 :: real where "cfgEtaHighPart2 = 0.8"

text \<open>
  The body of the loop over the track pairs, after the chain of \<^verbatim>\<open>continue\<close>: the
  invariant-mass reconstruction, the mass window and the three rows.
\<close>

definition phiReco :: "config \<Rightarrow> extern \<Rightarrow> collision \<Rightarrow> int list \<Rightarrow> track \<Rightarrow> track \<Rightarrow> state \<Rightarrow> state" where
  "phiReco cfg ext col tmpIDtrack p1 p2 s =
     (let mMassOne = pdgMass ext ConfPDGCodePartOne;
          mMassTwo = pdgMass ext ConfPDGCodePartTwo;
          sumVec = sumPtEtaPhiM ext (pt p1, eta p1, phi p1, mMassOne)
                     (pt p2, eta p2, phi p2, mMassTwo);
          phiEta = vEta sumVec;
          phiPhi = vPhi sumVec;
          phiPt = vPt sumVec;
          phiP = vP sumVec;
          phiM = vM sumVec;
          s1 = emit (Fill (PhiFillQAMass phiM p1 p2)) s
      in if phiM < ConfInvMassLowLimitPhi cfg \<or> phiM > ConfInvMassUpLimitPhi cfg then s1
         else
           let s2 = emit (Fill (PhiFillQA p1 p2)) s1;
               cutContainerV0 = phiGetCutContainer ext col p1 p2
           in if True then
                let postrackID = int32_of (globalIndex p1);
                    rowInPrimaryTrackTablePos = getRowDaughters postrackID tmpIDtrack;
                    s3 = emit (OutputParts
                           (outputPartsRow (int32_of (outputCollision_lastIndex s2))
                              (pt p1) (eta p1) (phi p1) (p p1) mMassOne kPhiChild
                              (at_kPosCuts cutContainerV0) (at_kPosPID cutContainerV0) 0
                              (rowInPrimaryTrackTablePos, 0) 0 0 p1)) s2;
                    rowOfPosTrack = int32_of (outputParts_lastIndex s3);
                    negtrackID = int32_of (globalIndex p2);
                    rowInPrimaryTrackTableNeg = getRowDaughters negtrackID tmpIDtrack;
                    s4 = emit (OutputParts
                           (outputPartsRow (int32_of (outputCollision_lastIndex s3))
                              (pt p2) (eta p2) (phi p2) (p p2) mMassTwo kPhiChild
                              (at_kNegCuts cutContainerV0) (at_kNegPID cutContainerV0) 0
                              (0, rowInPrimaryTrackTableNeg) 0 0 p2)) s3;
                    rowOfNegTrack = int32_of (outputParts_lastIndex s4)
                in emit (OutputParts
                     (outputPartsRow (int32_of (outputCollision_lastIndex s4))
                        phiPt phiEta phiPhi phiP phiM kPhi
                        (at_kV0 cutContainerV0) 0 0
                        (rowOfPosTrack, rowOfNegTrack) 0 0 p1)) s4
              else s2)"

text \<open>The body of the loop over the track pairs: every \<^verbatim>\<open>continue\<close> leaves the state as it is.\<close>

definition phiBody :: "config \<Rightarrow> extern \<Rightarrow> collision \<Rightarrow> int list \<Rightarrow> track \<times> track \<Rightarrow> state \<Rightarrow> state" where
  "phiBody cfg ext col tmpIDtrack pr s =
     (case pr of (p1, p2) \<Rightarrow>
        if trackType p1 = Run2Tracklet \<or> trackType p2 = Run2Tracklet then s
        else if globalIndex p1 = globalIndex p2 then s
        else if pt p1 < cfgPtLowPart1 \<or> pt p1 > cfgPtHighPart1 then s
        else if p p1 < cfgPLowPart1 \<or> p p1 > cfgPHighPart1 then s
        else if eta p1 < cfgEtaLowPart1 \<or> eta p1 > cfgEtaHighPart1 then s
        else if pt p2 < cfgPtLowPart2 \<or> pt p2 > cfgPtHighPart2 then s
        else if p p2 < cfgPLowPart2 \<or> p p2 > cfgPHighPart2 then s
        else if eta p2 < cfgEtaLowPart2 \<or> eta p2 > cfgEtaHighPart2 then s
        else if \<not> IsKaonNSigma cfg (p p1) (tpcNSigmaKa p1) (tofNSigmaKa p1) then s
        else if \<not> IsKaonNSigma cfg (p p2) (tpcNSigmaKa p2) (tofNSigmaKa p2) then s
        else phiReco cfg ext col tmpIDtrack p1 p2 s)"

text \<open>
  Modelled from the spec: \<^verbatim>\<open>combinations(CombinationsStrictlyUpperIndexPolicy(tracks, tracks))\<close>
  is framework code outside the sources. It "enumerate[s] every strictly-increasing-index
  pair of tracks in the event", "in index order": the first leg runs over the table, the
  second over the rows after it.
\<close>

fun combinationsStrictlyUpper :: "'a list \<Rightarrow> ('a \<times> 'a) list" where
  "combinationsStrictlyUpper [] = []"
| "combinationsStrictlyUpper (x # xs) = map (Pair x) xs @ combinationsStrictlyUpper xs"

definition processProd ::
  "config \<Rightarrow> extern \<Rightarrow> collision \<Rightarrow> track list \<Rightarrow> v0data list \<Rightarrow> state \<Rightarrow> error + state" where
  "processProd cfg ext col tracks fullV0s s =
     (case updateMagField ext (bc col) s of
        Inl e \<Rightarrow> Inl e
      | Inr s0 \<Rightarrow>
          if \<not> colIsSelected ext col then
            (if ConfIsTrigger cfg then
               Inr (emit (OutputCollision
                      \<lparr> c_posZ = posZ col, c_mult = multFV0M col,
                        c_sphericity = computeSphericity ext col tracks,
                        c_magField = mMagField s0 \<rparr>) s0)
             else Inr s0)
          else
            let vtxZ = posZ col;
                mult = multFV0M col;
                spher = computeSphericity ext col tracks;
                s1 = emit (Fill (ColFillQA col)) s0;
                s2 = (if ConfIsRun3 cfg then
                        emit (OutputCollision
                          \<lparr> c_posZ = vtxZ, c_mult = multFT0M col, c_sphericity = spher,
                            c_magField = mMagField s1 \<rparr>) s1
                      else
                        emit (OutputCollision
                          \<lparr> c_posZ = vtxZ, c_mult = mult, c_sphericity = spher,
                            c_magField = mMagField s1 \<rparr>) s1);
                childIDs = (0, 0);
                (tmpIDtrack, s3) = fold (trackBody ext childIDs) tracks ([], s2);
                s4 = (if ConfStoreV0 cfg then fold (v0Body ext col tmpIDtrack) fullV0s s3
                      else s3);
                s5 = (if ConfStorePhi cfg then
                        fold (phiBody cfg ext col tmpIDtrack) (combinationsStrictlyUpper tracks) s4
                      else s4)
            in Inr s5)"

section \<open>A loop-free description of one event\<close>

text \<open>
  The definitions of this section restate, without state, what the three loops of
  \<^verbatim>\<open>processProd\<close> write: the effects of one loop body as a list, and the rows of one
  composite candidate as a triple. The lemmas of the next section prove that the
  embedding of the source above computes exactly these lists.
\<close>

definition emits :: "effect list \<Rightarrow> state \<Rightarrow> state" where
  "emits es s = s\<lparr>trace := trace s @ es\<rparr>"

definition trackEffects :: "int \<Rightarrow> int \<times> int \<Rightarrow> track \<Rightarrow> effect list" where
  "trackEffects cid childIDs t =
     [Fill (TrackFillQA t),
      OutputParts (outputPartsRow cid (pt t) (eta t) (phi t) (p t) 1 kTrack 0 0 (dcaXY t) childIDs 0 0 t)]"

text \<open>
  The tracks that pass the minimal selection, in the order of the track table, and the
  vector \<^verbatim>\<open>tmpIDtrack\<close> that the track loop builds from them.
\<close>

definition acceptedTracks :: "extern \<Rightarrow> track list \<Rightarrow> track list" where
  "acceptedTracks ext tracks = filter (trkIsSelectedMinimal ext) tracks"

definition daughterIndexMap :: "extern \<Rightarrow> track list \<Rightarrow> int list" where
  "daughterIndexMap ext tracks = map (\<lambda>t. int32_of (globalIndex t)) (acceptedTracks ext tracks)"

definition trackRow :: "int \<Rightarrow> track \<Rightarrow> partRow" where
  "trackRow cid t =
     outputPartsRow cid (pt t) (eta t) (phi t) (p t) 1 kTrack 0 0 (dcaXY t) (0, 0) 0 0 t"

text \<open>
  A V0 candidate is stored when it passes \<^verbatim>\<open>isSelectedMinimal\<close> and the three bitmaps of
  its cut container are positive; \<open>base\<close> is the index that the first row of the triple
  gets in the particle table.
\<close>

definition v0Accepted :: "extern \<Rightarrow> collision \<Rightarrow> v0data \<Rightarrow> bool" where
  "v0Accepted ext col v \<longleftrightarrow>
     v0IsSelectedMinimal ext col v \<and> at_kV0 (v0GetCutContainer ext col v) > 0 \<and>
     at_kPosCuts (v0GetCutContainer ext col v) > 0 \<and> at_kNegCuts (v0GetCutContainer ext col v) > 0"

definition v0Triple :: "extern \<Rightarrow> collision \<Rightarrow> int list \<Rightarrow> int \<Rightarrow> int \<Rightarrow> v0data \<Rightarrow> partRow list" where
  "v0Triple ext col ids cid base v =
     [outputPartsRow cid (positivept v) (positiveeta v) (positivephi v) 0 0 kV0Child
        (at_kPosCuts (v0GetCutContainer ext col v)) (at_kPosPID (v0GetCutContainer ext col v)) 0
        (getRowDaughters (posTrackId v) ids, 0) 0 0 (posTrack v),
      outputPartsRow cid (negativept v) (negativeeta v) (negativephi v) 0 0 kV0Child
        (at_kNegCuts (v0GetCutContainer ext col v)) (at_kNegPID (v0GetCutContainer ext col v)) 0
        (0, getRowDaughters (negTrackId v) ids) 0 0 (negTrack v),
      outputPartsRow cid (v0pt v) (v0eta v) (v0phi v) 0 0 kV0
        (at_kV0 (v0GetCutContainer ext col v)) 0
        (v0cosPA ext v (posX col) (posY col) (posZ col))
        (int32_of base, int32_of (base + 1)) (mLambda v) (mAntiLambda v) (posTrack v)]"

definition v0Effects :: "extern \<Rightarrow> collision \<Rightarrow> int list \<Rightarrow> int \<Rightarrow> int \<Rightarrow> v0data \<Rightarrow> effect list" where
  "v0Effects ext col ids cid base v =
     Fill (V0FillLambdaQA v) #
     (if v0IsSelectedMinimal ext col v then
        Fill (V0FillQA v) #
        (if v0Accepted ext col v then map OutputParts (v0Triple ext col ids cid base v) else [])
      else [])"

fun v0LoopEffects :: "extern \<Rightarrow> collision \<Rightarrow> int list \<Rightarrow> int \<Rightarrow> int \<Rightarrow> v0data list \<Rightarrow> effect list" where
  "v0LoopEffects ext col ids cid base [] = []"
| "v0LoopEffects ext col ids cid base (v # vs) =
     v0Effects ext col ids cid base v @
     v0LoopEffects ext col ids cid (if v0Accepted ext col v then base + 3 else base) vs"

text \<open>
  A track pair reaches the mass reconstruction when no \<^verbatim>\<open>continue\<close> of the chain fires
  (\<open>phiGates\<close>), and is stored when its mass lies in the window.
\<close>

definition phiGates :: "config \<Rightarrow> track \<times> track \<Rightarrow> bool" where
  "phiGates cfg pr \<longleftrightarrow>
     (case pr of (p1, p2) \<Rightarrow>
        \<not> (trackType p1 = Run2Tracklet \<or> trackType p2 = Run2Tracklet) \<and>
        \<not> globalIndex p1 = globalIndex p2 \<and>
        \<not> (pt p1 < cfgPtLowPart1 \<or> pt p1 > cfgPtHighPart1) \<and>
        \<not> (p p1 < cfgPLowPart1 \<or> p p1 > cfgPHighPart1) \<and>
        \<not> (eta p1 < cfgEtaLowPart1 \<or> eta p1 > cfgEtaHighPart1) \<and>
        \<not> (pt p2 < cfgPtLowPart2 \<or> pt p2 > cfgPtHighPart2) \<and>
        \<not> (p p2 < cfgPLowPart2 \<or> p p2 > cfgPHighPart2) \<and>
        \<not> (eta p2 < cfgEtaLowPart2 \<or> eta p2 > cfgEtaHighPart2) \<and>
        IsKaonNSigma cfg (p p1) (tpcNSigmaKa p1) (tofNSigmaKa p1) \<and>
        IsKaonNSigma cfg (p p2) (tpcNSigmaKa p2) (tofNSigmaKa p2))"

definition phiSumVec :: "extern \<Rightarrow> track \<times> track \<Rightarrow> fourVec" where
  "phiSumVec ext pr =
     (case pr of (p1, p2) \<Rightarrow>
        sumPtEtaPhiM ext (pt p1, eta p1, phi p1, pdgMass ext ConfPDGCodePartOne)
          (pt p2, eta p2, phi p2, pdgMass ext ConfPDGCodePartTwo))"

definition phiInMassWindow :: "config \<Rightarrow> extern \<Rightarrow> track \<times> track \<Rightarrow> bool" where
  "phiInMassWindow cfg ext pr \<longleftrightarrow>
     \<not> (vM (phiSumVec ext pr) < ConfInvMassLowLimitPhi cfg \<or>
        vM (phiSumVec ext pr) > ConfInvMassUpLimitPhi cfg)"

definition phiAccepted :: "config \<Rightarrow> extern \<Rightarrow> track \<times> track \<Rightarrow> bool" where
  "phiAccepted cfg ext pr \<longleftrightarrow> phiGates cfg pr \<and> phiInMassWindow cfg ext pr"

definition phiTriple :: "extern \<Rightarrow> collision \<Rightarrow> int list \<Rightarrow> int \<Rightarrow> int \<Rightarrow> track \<times> track \<Rightarrow> partRow list" where
  "phiTriple ext col ids cid base pr =
     (case pr of (p1, p2) \<Rightarrow>
     [outputPartsRow cid (pt p1) (eta p1) (phi p1) (p p1) (pdgMass ext ConfPDGCodePartOne) kPhiChild
        (at_kPosCuts (phiGetCutContainer ext col p1 p2)) (at_kPosPID (phiGetCutContainer ext col p1 p2)) 0
        (getRowDaughters (int32_of (globalIndex p1)) ids, 0) 0 0 p1,
      outputPartsRow cid (pt p2) (eta p2) (phi p2) (p p2) (pdgMass ext ConfPDGCodePartTwo) kPhiChild
        (at_kNegCuts (phiGetCutContainer ext col p1 p2)) (at_kNegPID (phiGetCutContainer ext col p1 p2)) 0
        (0, getRowDaughters (int32_of (globalIndex p2)) ids) 0 0 p2,
      outputPartsRow cid (vPt (phiSumVec ext pr)) (vEta (phiSumVec ext pr)) (vPhi (phiSumVec ext pr))
        (vP (phiSumVec ext pr)) (vM (phiSumVec ext pr)) kPhi
        (at_kV0 (phiGetCutContainer ext col p1 p2)) 0 0
        (int32_of base, int32_of (base + 1)) 0 0 p1])"

definition phiEffects :: "config \<Rightarrow> extern \<Rightarrow> collision \<Rightarrow> int list \<Rightarrow> int \<Rightarrow> int \<Rightarrow> track \<times> track \<Rightarrow> effect list" where
  "phiEffects cfg ext col ids cid base pr =
     (if phiGates cfg pr then
        Fill (PhiFillQAMass (vM (phiSumVec ext pr)) (fst pr) (snd pr)) #
        (if phiInMassWindow cfg ext pr then
           Fill (PhiFillQA (fst pr) (snd pr)) # map OutputParts (phiTriple ext col ids cid base pr)
         else [])
      else [])"

fun phiLoopEffects :: "config \<Rightarrow> extern \<Rightarrow> collision \<Rightarrow> int list \<Rightarrow> int \<Rightarrow> int \<Rightarrow> (track \<times> track) list \<Rightarrow> effect list" where
  "phiLoopEffects cfg ext col ids cid base [] = []"
| "phiLoopEffects cfg ext col ids cid base (pr # prs) =
     phiEffects cfg ext col ids cid base pr @
     phiLoopEffects cfg ext col ids cid (if phiAccepted cfg ext pr then base + 3 else base) prs"

text \<open>The rows written to either output table, in the order of writing.\<close>

definition isOutput :: "effect \<Rightarrow> bool" where
  "isOutput e = (case e of OutputCollision _ \<Rightarrow> True | OutputParts _ \<Rightarrow> True | _ \<Rightarrow> False)"

definition outputs :: "effect list \<Rightarrow> effect list" where
  "outputs tr = filter isOutput tr"

text \<open>Triples written one after the other, the first one starting at index \<open>base\<close>.\<close>

fun triplesFrom :: "(int \<Rightarrow> 'c \<Rightarrow> partRow list) \<Rightarrow> int \<Rightarrow> 'c list \<Rightarrow> partRow list" where
  "triplesFrom mk base [] = []"
| "triplesFrom mk base (c # cs) = mk base c @ triplesFrom mk (base + 3) cs"

text \<open>
  The row of an accepted event, and the particle rows that follow it: the accepted
  tracks, then a triple for each stored V0, then a triple for each stored track pair.
\<close>

definition eventRow :: "config \<Rightarrow> extern \<Rightarrow> collision \<Rightarrow> track list \<Rightarrow> real \<Rightarrow> collRow" where
  "eventRow cfg ext col tracks field =
     \<lparr> c_posZ = posZ col, c_mult = (if ConfIsRun3 cfg then multFT0M col else multFV0M col),
       c_sphericity = computeSphericity ext col tracks, c_magField = field \<rparr>"

definition eventParticleRows ::
  "config \<Rightarrow> extern \<Rightarrow> collision \<Rightarrow> track list \<Rightarrow> v0data list \<Rightarrow> int \<Rightarrow> int \<Rightarrow> partRow list" where
  "eventParticleRows cfg ext col tracks fullV0s cid base =
     (let acc = acceptedTracks ext tracks;
          ids = daughterIndexMap ext tracks;
          v0s = (if ConfStoreV0 cfg then filter (v0Accepted ext col) fullV0s else []);
          prs = (if ConfStorePhi cfg
                 then filter (phiAccepted cfg ext) (combinationsStrictlyUpper tracks) else [])
      in map (trackRow cid) acc @
         triplesFrom (v0Triple ext col ids cid) (base + int (length acc)) v0s @
         triplesFrom (phiTriple ext col ids cid) (base + int (length acc) + 3 * int (length v0s)) prs)"

definition acceptedEffects ::
  "config \<Rightarrow> extern \<Rightarrow> collision \<Rightarrow> track list \<Rightarrow> v0data list \<Rightarrow> real \<Rightarrow> int \<Rightarrow> int \<Rightarrow> effect list" where
  "acceptedEffects cfg ext col tracks fullV0s field cid base =
     (let acc = acceptedTracks ext tracks;
          ids = daughterIndexMap ext tracks;
          base1 = base + int (length acc);
          base2 = (if ConfStoreV0 cfg then base1 + 3 * int (length (filter (v0Accepted ext col) fullV0s))
                   else base1)
      in Fill (ColFillQA col) # OutputCollision (eventRow cfg ext col tracks field) #
         concat (map (trackEffects cid (0, 0)) acc) @
         (if ConfStoreV0 cfg then v0LoopEffects ext col ids cid base1 fullV0s else []) @
         (if ConfStorePhi cfg
          then phiLoopEffects cfg ext col ids cid base2 (combinationsStrictlyUpper tracks) else []))"

text \<open>
  The rows of a table segment are linked: a row of type \<open>kV0\<close> or \<open>kPhi\<close> at position
  \<open>i\<close> of the segment has two rows of the matching child type directly before it and
  carries their table indices, the segment starting at table index \<open>base\<close>.
\<close>

fun childTypeOf :: "ParticleType \<Rightarrow> ParticleType option" where
  "childTypeOf kV0 = Some kV0Child"
| "childTypeOf kPhi = Some kPhiChild"
| "childTypeOf kTrack = None"
| "childTypeOf kV0Child = None"
| "childTypeOf kPhiChild = None"

definition parentsLinked :: "int \<Rightarrow> partRow list \<Rightarrow> bool" where
  "parentsLinked base rows \<longleftrightarrow>
     (\<forall>i < length rows. \<forall>ct. childTypeOf (r_partType (rows ! i)) = Some ct \<longrightarrow>
        2 \<le> i \<and>
        r_childrenIds (rows ! i) = (int32_of (base + int i - 2), int32_of (base + int i - 1)) \<and>
        r_partType (rows ! (i - 2)) = ct \<and> r_partType (rows ! (i - 1)) = ct)"

section \<open>A concrete event\<close>

text \<open>
  Two tracks, the first below the transverse-momentum floor of the minimal selection
  used here, and one V0 candidate whose positive daughter is that first track. The
  Phi selection has no criterion configured (\<^verbatim>\<open>init\<close> never calls
  \<^verbatim>\<open>PhiCuts.setSelection\<close>), so its cut container is zero.
\<close>

definition exTrack :: "int \<Rightarrow> real \<Rightarrow> track" where
  "exTrack gi mom =
     \<lparr> globalIndex = gi, trackType = Track, pt = mom, eta = 0, phi = 0, p = mom, dcaXY = 0,
       sign = 1, beta = 0, itsChi2NCl = 0, tpcChi2NCl = 0, tpcNSigmaKa = 0, tofNSigmaKa = 0 \<rparr>"

definition exV0 :: v0data where
  "exV0 = \<lparr> posTrackId = 0, negTrackId = 1, posTrack = exTrack 0 0.3, negTrack = exTrack 1 1,
     positivept = 0.3, positiveeta = 0.1, positivephi = 0.2,
     negativept = 1, negativeeta = 0.4, negativephi = 0.5,
     v0pt = 1.3, v0eta = 0.6, v0phi = 0.7, mLambda = 1.1, mAntiLambda = 1.2 \<rparr>"

definition exV0Neg :: v0data where
  "exV0Neg = exV0\<lparr>posTrackId := 1, negTrackId := 0, posTrack := exTrack 1 1,
     negTrack := exTrack 0 0.3\<rparr>"

definition exCol :: "int \<Rightarrow> nat \<Rightarrow> real \<Rightarrow> collision" where
  "exCol run ts z =
     \<lparr> bc = \<lparr> runNumber = run, timestamp = ts \<rparr>, posX = 0, posY = 0, posZ = z,
       multFV0M = 7, multFT0M = 8 \<rparr>"

definition exExt :: extern where
  "exExt =
     \<lparr> ccdbGRP = (\<lambda>ts. if ts = 10 then Some \<lparr> nominalL3Field = 5 \<rparr>
                     else if ts = 20 then Some \<lparr> nominalL3Field = - 5 \<rparr> else None),
       colIsSelected = (\<lambda>c. \<bar>posZ c\<bar> \<le> 10),
       computeSphericity = (\<lambda>c ts. 0),
       trkIsSelectedMinimal = (\<lambda>t. 0.4 \<le> pt t),
       v0IsSelectedMinimal = (\<lambda>c v. True),
       v0GetCutContainer = (\<lambda>c v. \<lparr> at_kV0 = 1, at_kPosCuts = 1, at_kPosPID = 0,
                                     at_kNegCuts = 1, at_kNegPID = 0 \<rparr>),
       v0cosPA = (\<lambda>v x y z. 1),
       phiGetCutContainer = (\<lambda>c a b. \<lparr> at_kV0 = 0, at_kPosCuts = 0, at_kPosPID = 0,
                                       at_kNegCuts = 0, at_kNegPID = 0 \<rparr>),
       pdgMass = (\<lambda>c. 0.493677),
       sumPtEtaPhiM = (\<lambda>a b. \<lparr> vEta = 0, vPhi = 0, vPt = 0, vP = 0, vM = 1.02 \<rparr>) \<rparr>"

definition exState :: state where
  "exState = \<lparr> mRunNumber = 1, mMagField = 0.5, grpo = Some \<lparr> nominalL3Field = 5 \<rparr>,
     trace = [CcdbGetForTimeStamp 10] \<rparr>"

definition exExtZero :: extern where
  "exExtZero = exExt\<lparr>v0GetCutContainer :=
     (\<lambda>c v. \<lparr> at_kV0 = 1, at_kPosCuts = 0, at_kPosPID = 0, at_kNegCuts = 1, at_kNegPID = 0 \<rparr>)\<rparr>"

definition exKaonFail :: track where
  "exKaonFail = (exTrack 2 1)\<lparr>tpcNSigmaKa := 3, tofNSigmaKa := 4\<rparr>"

section \<open>Auxiliary lemmas\<close>

lemma Hypot_less_iff: "Hypot x y < c \<longleftrightarrow> 0 < c \<and> x * x + y * y < c * c"
proof (cases "0 < c")
  case True
  then have "sqrt (x * x + y * y) < c \<longleftrightarrow> x * x + y * y < c\<^sup>2"
    by (metis less_eq_real_def real_sqrt_less_iff real_sqrt_abs abs_of_nonneg)
  then show ?thesis using True by (simp add: Hypot_def power2_eq_square)
next
  case False
  have "0 \<le> sqrt (x * x + y * y)" by simp
  with False have "\<not> sqrt (x * x + y * y) < c" by linarith
  with False show ?thesis by (simp add: Hypot_def)
qed

lemma emit_emits: "emit e s = emits [e] s"
  by (simp add: emit_def emits_def)

lemma emits_emits: "emits a (emits b s) = emits (b @ a) s"
  by (simp add: emits_def)

lemma emits_Nil: "emits [] s = s"
  by (simp add: emits_def)

lemma emits_fields:
  "trace (emits es s) = trace s @ es"
  "mRunNumber (emits es s) = mRunNumber s"
  "mMagField (emits es s) = mMagField s"
  "grpo (emits es s) = grpo s"
  by (simp_all add: emits_def)

lemma particleRows_simps:
  "particleRows [] = []"
  "particleRows (a @ b) = particleRows a @ particleRows b"
  "particleRows (OutputParts r # es) = r # particleRows es"
  "particleRows (OutputCollision c # es) = particleRows es"
  "particleRows (Fill q # es) = particleRows es"
  "particleRows (CcdbGetForTimeStamp n # es) = particleRows es"
  by (simp_all add: particleRows_def)

lemma collisionRows_simps:
  "collisionRows [] = []"
  "collisionRows (a @ b) = collisionRows a @ collisionRows b"
  "collisionRows (OutputParts r # es) = collisionRows es"
  "collisionRows (OutputCollision c # es) = c # collisionRows es"
  "collisionRows (Fill q # es) = collisionRows es"
  "collisionRows (CcdbGetForTimeStamp n # es) = collisionRows es"
  by (simp_all add: collisionRows_def)

lemma collisionRows_trackEffects: "collisionRows (concat (map (trackEffects cid ch) ts)) = []"
  by (induction ts) (simp_all add: trackEffects_def collisionRows_simps)

lemma trackBody_emits:
  "trackBody ext ch t (ids, s) =
     (if trkIsSelectedMinimal ext t
      then (ids @ [int32_of (globalIndex t)],
            emits (trackEffects (int32_of (outputCollision_lastIndex s)) ch t) s)
      else (ids, s))"
  by (simp add: trackBody_def Let_def emit_emits emits_emits trackEffects_def
      outputCollision_lastIndex_def emits_fields collisionRows_simps)

lemma fold_trackBody:
  "fold (trackBody ext ch) ts (ids, s) =
     (ids @ map (\<lambda>t. int32_of (globalIndex t)) (filter (trkIsSelectedMinimal ext) ts),
      emits (concat (map (trackEffects (int32_of (outputCollision_lastIndex s)) ch)
                      (filter (trkIsSelectedMinimal ext) ts))) s)"
proof (induction ts arbitrary: ids s)
  case Nil
  show ?case by (simp add: emits_Nil)
next
  case (Cons t ts)
  have keep: "outputCollision_lastIndex (emits (trackEffects c ch t) s) = outputCollision_lastIndex s" for c
    by (simp add: outputCollision_lastIndex_def emits_fields collisionRows_simps trackEffects_def)
  show ?case
    by (simp add: trackBody_emits Cons.IH keep emits_emits)
qed

lemma lastIndex_emits:
  "outputCollision_lastIndex (emits es s) = outputCollision_lastIndex s + int (length (collisionRows es))"
  "outputParts_lastIndex (emits es s) = outputParts_lastIndex s + int (length (particleRows es))"
  by (simp_all add: outputCollision_lastIndex_def outputParts_lastIndex_def lastIndex_def
      emits_fields collisionRows_simps particleRows_simps)

lemma v0Body_emits:
  "v0Body ext col ids v s =
     emits (v0Effects ext col ids (int32_of (outputCollision_lastIndex s))
              (outputParts_lastIndex s + 1) v) s"
  by (simp add: v0Body_def Let_def emit_emits emits_emits v0Effects_def v0Accepted_def
      v0Triple_def lastIndex_emits collisionRows_simps particleRows_simps)

lemma rows_v0Effects:
  "collisionRows (v0Effects ext col ids cid base v) = []"
  "particleRows (v0Effects ext col ids cid base v) =
     (if v0Accepted ext col v then v0Triple ext col ids cid base v else [])"
  by (simp_all add: v0Effects_def v0Accepted_def v0Triple_def collisionRows_simps particleRows_simps)

lemma fold_v0Body:
  "fold (v0Body ext col ids) vs s =
     emits (v0LoopEffects ext col ids (int32_of (outputCollision_lastIndex s))
              (outputParts_lastIndex s + 1) vs) s"
proof (induction vs arbitrary: s)
  case Nil
  show ?case by (simp add: emits_Nil)
next
  case (Cons v vs)
  have "fold (v0Body ext col ids) (v # vs) s = fold (v0Body ext col ids) vs (v0Body ext col ids v s)"
    by simp
  also have "\<dots> = emits (v0LoopEffects ext col ids
        (int32_of (outputCollision_lastIndex (v0Body ext col ids v s)))
        (outputParts_lastIndex (v0Body ext col ids v s) + 1) vs) (v0Body ext col ids v s)"
    by (rule Cons.IH)
  also have "\<dots> = emits (v0LoopEffects ext col ids (int32_of (outputCollision_lastIndex s))
        (outputParts_lastIndex s + 1) (v # vs)) s"
    by (simp add: v0Body_emits lastIndex_emits rows_v0Effects emits_emits v0Triple_def)
  finally show ?case .
qed

lemma phiReco_emits:
  "phiReco cfg ext col ids p1 p2 s =
     emits (Fill (PhiFillQAMass (vM (phiSumVec ext (p1, p2))) p1 p2) #
        (if phiInMassWindow cfg ext (p1, p2) then
           Fill (PhiFillQA p1 p2) #
           map OutputParts (phiTriple ext col ids (int32_of (outputCollision_lastIndex s))
              (outputParts_lastIndex s + 1) (p1, p2))
         else [])) s"
  by (simp add: phiReco_def Let_def emit_emits emits_emits phiInMassWindow_def phiSumVec_def
      phiTriple_def lastIndex_emits collisionRows_simps particleRows_simps)

lemma phiBody_emits:
  "phiBody cfg ext col ids pr s =
     emits (phiEffects cfg ext col ids (int32_of (outputCollision_lastIndex s))
              (outputParts_lastIndex s + 1) pr) s"
proof (cases pr)
  case (Pair p1 p2)
  show ?thesis
  proof (cases "phiGates cfg pr")
    case True
    then have "phiBody cfg ext col ids pr s = phiReco cfg ext col ids p1 p2 s"
      unfolding Pair phiBody_def phiGates_def by (simp only: prod.case simp_thms if_False if_True)
    then show ?thesis
      using True by (simp add: phiReco_emits phiEffects_def Pair)
  next
    case False
    then have "phiBody cfg ext col ids pr s = s"
      unfolding Pair phiBody_def phiGates_def by (simp only: prod.case) presburger
    then show ?thesis
      using False by (simp add: phiEffects_def emits_Nil)
  qed
qed

lemma rows_phiEffects:
  "collisionRows (phiEffects cfg ext col ids cid base pr) = []"
  "particleRows (phiEffects cfg ext col ids cid base pr) =
     (if phiAccepted cfg ext pr then phiTriple ext col ids cid base pr else [])"
  by (simp_all add: phiEffects_def phiAccepted_def phiTriple_def collisionRows_simps
      particleRows_simps split: prod.splits)

lemma fold_phiBody:
  "fold (phiBody cfg ext col ids) prs s =
     emits (phiLoopEffects cfg ext col ids (int32_of (outputCollision_lastIndex s))
              (outputParts_lastIndex s + 1) prs) s"
proof (induction prs arbitrary: s)
  case Nil
  show ?case by (simp add: emits_Nil)
next
  case (Cons pr prs)
  have "fold (phiBody cfg ext col ids) (pr # prs) s =
        fold (phiBody cfg ext col ids) prs (phiBody cfg ext col ids pr s)"
    by simp
  also have "\<dots> = emits (phiLoopEffects cfg ext col ids
        (int32_of (outputCollision_lastIndex (phiBody cfg ext col ids pr s)))
        (outputParts_lastIndex (phiBody cfg ext col ids pr s) + 1) prs) (phiBody cfg ext col ids pr s)"
    by (rule Cons.IH)
  also have "\<dots> = emits (phiLoopEffects cfg ext col ids (int32_of (outputCollision_lastIndex s))
        (outputParts_lastIndex s + 1) (pr # prs)) s"
    by (simp add: phiBody_emits lastIndex_emits rows_phiEffects emits_emits phiTriple_def
        split: prod.splits)
  finally show ?case .
qed

lemma particleRows_trackEffects:
  "particleRows (concat (map (trackEffects cid (0, 0)) ts)) = map (trackRow cid) ts"
  by (induction ts) (simp_all add: trackEffects_def trackRow_def particleRows_simps)

lemma particleRows_v0LoopEffects:
  "particleRows (v0LoopEffects ext col ids cid base vs) =
     triplesFrom (v0Triple ext col ids cid) base (filter (v0Accepted ext col) vs)"
  by (induction vs arbitrary: base) (simp_all add: particleRows_simps rows_v0Effects)

lemma collisionRows_v0LoopEffects:
  "collisionRows (v0LoopEffects ext col ids cid base vs) = []"
  by (induction vs arbitrary: base) (simp_all add: collisionRows_simps rows_v0Effects)

lemma particleRows_phiLoopEffects:
  "particleRows (phiLoopEffects cfg ext col ids cid base prs) =
     triplesFrom (phiTriple ext col ids cid) base (filter (phiAccepted cfg ext) prs)"
  by (induction prs arbitrary: base) (simp_all add: particleRows_simps rows_phiEffects)

lemma collisionRows_phiLoopEffects:
  "collisionRows (phiLoopEffects cfg ext col ids cid base prs) = []"
  by (induction prs arbitrary: base) (simp_all add: collisionRows_simps rows_phiEffects)

lemma length_v0Triple: "length (v0Triple ext col ids cid base v) = 3"
  by (simp add: v0Triple_def)

lemma length_phiTriple: "length (phiTriple ext col ids cid base pr) = 3"
  by (simp add: phiTriple_def split: prod.splits)

lemma length_triplesFrom:
  "(\<And>b c. length (mk b c) = 3) \<Longrightarrow> length (triplesFrom mk base cs) = 3 * length cs"
  by (induction cs arbitrary: base) simp_all

lemma processProd_accepted:
  assumes "updateMagField ext (bc col) s = Inr s0" and "colIsSelected ext col"
  shows "processProd cfg ext col tracks fullV0s s =
     Inr (emits (acceptedEffects cfg ext col tracks fullV0s (mMagField s0)
            (int32_of (outputCollision_lastIndex s0 + 1)) (outputParts_lastIndex s0 + 1)) s0)"
  using assms
  by (simp add: processProd_def Let_def fold_trackBody fold_v0Body fold_phiBody emit_emits
      emits_emits lastIndex_emits emits_fields collisionRows_simps particleRows_simps
      collisionRows_trackEffects particleRows_trackEffects particleRows_v0LoopEffects
      collisionRows_v0LoopEffects length_triplesFrom length_v0Triple
      acceptedEffects_def eventRow_def acceptedTracks_def daughterIndexMap_def add_ac)

lemma int32_of_id: "- (2 ^ 31) \<le> x \<Longrightarrow> x < 2 ^ 31 \<Longrightarrow> int32_of x = x"
  unfolding int32_of_def by (simp add: sint_sbintrunc' signed_take_bit_int_eq_self)

lemma int32_of_nat: "n < 2 ^ 31 \<Longrightarrow> int32_of (int n) = int n"
  by (rule int32_of_id) simp_all

lemma outputs_simps:
  "outputs [] = []"
  "outputs (a @ b) = outputs a @ outputs b"
  "outputs (OutputParts r # es) = OutputParts r # outputs es"
  "outputs (OutputCollision c # es) = OutputCollision c # outputs es"
  "outputs (Fill q # es) = outputs es"
  "outputs (CcdbGetForTimeStamp n # es) = outputs es"
  by (simp_all add: outputs_def isOutput_def)

lemma outputs_no_collision:
  "collisionRows es = [] \<Longrightarrow> outputs es = map OutputParts (particleRows es)"
proof (induction es)
  case Nil
  show ?case by (simp add: outputs_simps particleRows_simps)
next
  case (Cons e es)
  then show ?case
    by (cases e) (simp_all add: outputs_simps particleRows_simps collisionRows_simps)
qed

lemma updateMagField_rows:
  assumes "updateMagField ext b s = Inr s0"
  shows "particleRows (trace s0) = particleRows (trace s)"
    and "collisionRows (trace s0) = collisionRows (trace s)"
    and "outputs (trace s0) = outputs (trace s)"
  using assms
  by (auto simp: updateMagField_def getMagneticFieldTesla_def emit_def particleRows_simps
      collisionRows_simps outputs_simps split: if_splits option.splits)

lemma rows_acceptedEffects:
  "particleRows (acceptedEffects cfg ext col tracks fullV0s field cid base) =
     eventParticleRows cfg ext col tracks fullV0s cid base"
  "collisionRows (acceptedEffects cfg ext col tracks fullV0s field cid base) =
     [eventRow cfg ext col tracks field]"
  "outputs (acceptedEffects cfg ext col tracks fullV0s field cid base) =
     OutputCollision (eventRow cfg ext col tracks field) #
     map OutputParts (eventParticleRows cfg ext col tracks fullV0s cid base)"
  by (simp_all add: acceptedEffects_def eventParticleRows_def Let_def particleRows_simps
      collisionRows_simps outputs_simps particleRows_trackEffects collisionRows_trackEffects
      particleRows_v0LoopEffects collisionRows_v0LoopEffects particleRows_phiLoopEffects
      collisionRows_phiLoopEffects outputs_no_collision)

lemma ex_updateMagField: "updateMagField exExt (bc (exCol 1 10 z)) initState = Inr exState"
  by (simp add: updateMagField_def getMagneticFieldTesla_def initState_def exCol_def exExt_def
      exState_def emit_def)

lemma processProd_rejected:
  assumes "updateMagField ext (bc col) s = Inr s0" and "\<not> colIsSelected ext col"
  shows "processProd cfg ext col tracks fullV0s s =
     Inr (emits (if ConfIsTrigger cfg
                 then [OutputCollision \<lparr> c_posZ = posZ col, c_mult = multFV0M col,
                         c_sphericity = computeSphericity ext col tracks,
                         c_magField = mMagField s0 \<rparr>]
                 else []) s0)"
  using assms by (simp add: processProd_def emit_emits emits_Nil)

lemma triplesFrom_filter_none:
  assumes "\<And>b c r. r \<in> set (mk b c) \<Longrightarrow> \<not> P r"
  shows "filter P (triplesFrom mk base cs) = []"
  using assms by (induction cs arbitrary: base) (auto simp: filter_empty_conv)

lemma v0Triple_types: "r \<in> set (v0Triple ext col ids cid base v) \<Longrightarrow> r_partType r \<noteq> kTrack"
  by (auto simp: v0Triple_def outputPartsRow_def)

lemma phiTriple_types: "r \<in> set (phiTriple ext col ids cid base pr) \<Longrightarrow> r_partType r \<noteq> kTrack"
  by (auto simp: phiTriple_def outputPartsRow_def split: prod.splits)

lemma trackRow_fields: "r_partType (trackRow cid t) = kTrack" "r_cut (trackRow cid t) = 0"
  "r_pidcut (trackRow cid t) = 0" "r_childrenIds (trackRow cid t) = (0, 0)"
  by (simp_all add: trackRow_def outputPartsRow_def)

lemma filter_kTrack_eventParticleRows:
  "filter (\<lambda>r. r_partType r = kTrack) (eventParticleRows cfg ext col tracks fullV0s cid base) =
     map (trackRow cid) (filter (trkIsSelectedMinimal ext) tracks)"
proof -
  have "filter (\<lambda>r. r_partType r = kTrack) (map (trackRow cid) ts) = map (trackRow cid) ts" for ts
    by (induction ts) (simp_all add: trackRow_fields)
  moreover have "filter (\<lambda>r. r_partType r = kTrack) (triplesFrom (v0Triple ext col ids cid) b vs) = []"
    for ids b vs
    by (rule triplesFrom_filter_none) (simp add: v0Triple_types)
  moreover have "filter (\<lambda>r. r_partType r = kTrack) (triplesFrom (phiTriple ext col ids cid) b prs) = []"
    for ids b prs
    by (rule triplesFrom_filter_none) (simp add: phiTriple_types)
  ultimately show ?thesis
    by (simp add: eventParticleRows_def Let_def acceptedTracks_def)
qed

lemma kTrack_rows_zero:
  assumes "r \<in> set (eventParticleRows cfg ext col tracks fullV0s cid base)" and "r_partType r = kTrack"
  shows "r_cut r = 0 \<and> r_pidcut r = 0"
proof -
  from assms have "r \<in> set (filter (\<lambda>r. r_partType r = kTrack)
      (eventParticleRows cfg ext col tracks fullV0s cid base))"
    by simp
  then have "r \<in> set (map (trackRow cid) (filter (trkIsSelectedMinimal ext) tracks))"
    by (simp only: filter_kTrack_eventParticleRows)
  then show ?thesis by (auto simp: trackRow_fields)
qed

lemma v0Body_rows:
  "particleRows (trace (v0Body ext col ids v s)) =
     particleRows (trace s) @
     (if v0Accepted ext col v
      then v0Triple ext col ids (int32_of (outputCollision_lastIndex s))
             (int (length (particleRows (trace s)))) v
      else [])"
  by (simp add: v0Body_emits emits_fields particleRows_simps rows_v0Effects
      outputParts_lastIndex_def lastIndex_def)

lemma phiBody_rows:
  "particleRows (trace (phiBody cfg ext col ids pr s)) =
     particleRows (trace s) @
     (if phiAccepted cfg ext pr
      then phiTriple ext col ids (int32_of (outputCollision_lastIndex s))
             (int (length (particleRows (trace s)))) pr
      else [])"
  by (simp add: phiBody_emits emits_fields particleRows_simps rows_phiEffects
      outputParts_lastIndex_def lastIndex_def)

lemma int32_of_small [simp]: "int32_of 0 = 0" "int32_of 1 = 1" "int32_of 2 = 2"
  "int32_of 3 = 3" "int32_of 4 = 4" "int32_of 5 = 5"
  by (simp_all add: int32_of_id)

lemma ex_phiAccepted:
  "phiAccepted defaultConf exExt (exTrack 0 0.3, exTrack 1 1)"
  by (simp add: phiAccepted_def phiGates_def phiInMassWindow_def phiSumVec_def exExt_def
      exTrack_def defaultConf_def IsKaonNSigma_def Hypot_less_iff cfgPtLowPart1_def
      cfgPtHighPart1_def cfgPLowPart1_def cfgPHighPart1_def cfgEtaLowPart1_def
      cfgEtaHighPart1_def cfgPtLowPart2_def cfgPtHighPart2_def cfgPLowPart2_def
      cfgPHighPart2_def cfgEtaLowPart2_def cfgEtaHighPart2_def)

lemma ex_event_rows:
  "map r_childrenIds (eventParticleRows defaultConf exExt (exCol 1 10 0)
      [exTrack 0 0.3, exTrack 1 1] [exV0] 0 0) =
   [(0, 0), (- 1, 0), (0, 0), (1, 2), (- 1, 0), (0, 0), (4, 5)]"
proof -
  have a: "\<not> trkIsSelectedMinimal exExt (exTrack 0 0.3)" "trkIsSelectedMinimal exExt (exTrack 1 1)"
    by (simp_all add: exExt_def exTrack_def)
  have b: "v0Accepted exExt c exV0" for c
    by (simp add: v0Accepted_def exExt_def)
  have c: "ConfStoreV0 defaultConf" "ConfStorePhi defaultConf"
    by (simp_all add: defaultConf_def)
  have d: "globalIndex (exTrack g m) = g" "posTrackId exV0 = 0" "negTrackId exV0 = 1" for g m
    by (simp_all add: exTrack_def exV0_def)
  show ?thesis
    by (simp add: eventParticleRows_def Let_def acceptedTracks_def daughterIndexMap_def
        ex_phiAccepted a b c d trackRow_fields v0Triple_def phiTriple_def outputPartsRow_def
        getRowDaughters_def)
qed

lemma getRowDaughters_from_notin:
  "d \<notin> set xs \<Longrightarrow> getRowDaughters_from i d xs = - 1"
  by (induction xs arbitrary: i) simp_all

lemma getRowDaughters_absent:
  "d \<notin> set vecID \<Longrightarrow> getRowDaughters d vecID = - 1"
  by (simp add: getRowDaughters_def getRowDaughters_from_notin)

lemma trackLoop_map:
  "fst (fold (trackBody ext ch) tracks ([], s)) = daughterIndexMap ext tracks"
  by (simp add: fold_trackBody daughterIndexMap_def acceptedTracks_def)

lemma getRowDaughters_from_found:
  "d \<in> set xs \<Longrightarrow> i + length xs \<le> 2 ^ 31 \<Longrightarrow> 0 \<le> getRowDaughters_from i d xs"
proof (induction xs arbitrary: i)
  case Nil
  then show ?case by simp
next
  case (Cons x xs)
  show ?case
  proof (cases "x = d")
    case True
    from Cons.prems(2) have "i < 2 ^ 31"
      by simp
    with True show ?thesis
      by (simp add: int32_of_nat)
  next
    case False
    with Cons.prems have "d \<in> set xs" "Suc i + length xs \<le> 2 ^ 31"
      by simp_all
    with Cons.IH [of "Suc i"] False show ?thesis
      by simp
  qed
qed

lemma getRowDaughters_found:
  "d \<in> set vecID \<Longrightarrow> length vecID \<le> 2 ^ 31 \<Longrightarrow> 0 \<le> getRowDaughters d vecID"
  using getRowDaughters_from_found [of d vecID 0] by (simp add: getRowDaughters_def)

lemma filtered_out_absent:
  assumes "\<forall>t \<in> set tracks. trkIsSelectedMinimal ext t \<longrightarrow> int32_of (globalIndex t) \<noteq> d"
  shows "d \<notin> set (daughterIndexMap ext tracks)"
  using assms by (auto simp: daughterIndexMap_def acceptedTracks_def)

lemma ex_processProd:
  "processProd defaultConf exExt (exCol 1 10 0) [exTrack 0 0.3, exTrack 1 1] [exV0] initState =
     Inr (emits (acceptedEffects defaultConf exExt (exCol 1 10 0) [exTrack 0 0.3, exTrack 1 1]
                   [exV0] 0.5 0 0) exState)"
proof -
  have h2: "colIsSelected exExt (exCol 1 10 0)"
    by (simp add: exExt_def exCol_def)
  have "outputCollision_lastIndex exState + 1 = 0" "outputParts_lastIndex exState + 1 = 0"
    "mMagField exState = 0.5"
    by (simp_all add: outputCollision_lastIndex_def outputParts_lastIndex_def lastIndex_def
        exState_def collisionRows_simps particleRows_simps)
  with processProd_accepted [OF ex_updateMagField h2, of defaultConf "[exTrack 0 0.3, exTrack 1 1]" "[exV0]"]
  show ?thesis by simp
qed

lemma ex_particleRows:
  "particleRows (trace (emits (acceptedEffects defaultConf exExt (exCol 1 10 0)
       [exTrack 0 0.3, exTrack 1 1] [exV0] 0.5 0 0) exState)) =
   eventParticleRows defaultConf exExt (exCol 1 10 0) [exTrack 0 0.3, exTrack 1 1] [exV0] 0 0"
  by (simp add: emits_fields particleRows_simps rows_acceptedEffects exState_def)

lemma ex_event_types:
  "map (\<lambda>r. (r_partType r, r_cut r)) (eventParticleRows defaultConf exExt (exCol 1 10 0)
      [exTrack 0 0.3, exTrack 1 1] [exV0] 0 0) =
   [(kTrack, 0), (kV0Child, 1), (kV0Child, 1), (kV0, 1), (kPhiChild, 0), (kPhiChild, 0), (kPhi, 0)]"
proof -
  have a: "\<not> trkIsSelectedMinimal exExt (exTrack 0 0.3)" "trkIsSelectedMinimal exExt (exTrack 1 1)"
    by (simp_all add: exExt_def exTrack_def)
  have b: "v0Accepted exExt c exV0" for c
    by (simp add: v0Accepted_def exExt_def)
  have c: "ConfStoreV0 defaultConf" "ConfStorePhi defaultConf"
    by (simp_all add: defaultConf_def)
  have d: "v0GetCutContainer exExt c v = \<lparr> at_kV0 = 1, at_kPosCuts = 1, at_kPosPID = 0,
                                     at_kNegCuts = 1, at_kNegPID = 0 \<rparr>"
    "phiGetCutContainer exExt c t1 t2 = \<lparr> at_kV0 = 0, at_kPosCuts = 0, at_kPosPID = 0,
                                       at_kNegCuts = 0, at_kNegPID = 0 \<rparr>" for c v t1 t2
    by (simp_all add: exExt_def)
  show ?thesis
    by (simp add: eventParticleRows_def Let_def acceptedTracks_def daughterIndexMap_def
        ex_phiAccepted a b c d trackRow_fields v0Triple_def phiTriple_def outputPartsRow_def)
qed

lemma phiAccepted_cutContainer:
  "phiAccepted cfg (ext\<lparr>phiGetCutContainer := g\<rparr>) pr = phiAccepted cfg ext pr"
  by (simp add: phiAccepted_def phiInMassWindow_def phiSumVec_def)

lemma twice_length_combinations:
  "2 * length (combinationsStrictlyUpper xs) = length xs * (length xs - 1)"
proof (induction xs)
  case Nil
  show ?case by simp
next
  case (Cons x xs)
  show ?case
  proof (cases xs)
    case Nil
    then show ?thesis by simp
  next
    case (Cons y ys)
    with Cons.IH show ?thesis by simp
  qed
qed

lemma length_combinations:
  "length (combinationsStrictlyUpper xs) = length xs * (length xs - 1) div 2"
  using twice_length_combinations [of xs] by simp

lemma combinations_map:
  "combinationsStrictlyUpper (map f xs) =
     map (\<lambda>(a, b). (f a, f b)) (combinationsStrictlyUpper xs)"
  by (induction xs) simp_all

lemma combinations_nth:
  "combinationsStrictlyUpper xs =
     map (\<lambda>(i, j). (xs ! i, xs ! j)) (combinationsStrictlyUpper [0..<length xs])"
proof -
  have "combinationsStrictlyUpper (map ((!) xs) [0..<length xs]) =
      map (\<lambda>(i, j). (xs ! i, xs ! j)) (combinationsStrictlyUpper [0..<length xs])"
    by (rule combinations_map)
  then show ?thesis by (simp add: map_nth)
qed

lemma set_combinations_subset:
  "(a, b) \<in> set (combinationsStrictlyUpper xs) \<Longrightarrow> a \<in> set xs \<and> b \<in> set xs"
  by (induction xs) auto

lemma distinct_combinations:
  "distinct xs \<Longrightarrow> distinct (combinationsStrictlyUpper xs)"
proof (induction xs)
  case Nil
  show ?case by simp
next
  case (Cons x xs)
  then have "distinct (map (Pair x) xs)"
    by (simp add: distinct_map inj_on_def)
  moreover have "set (map (Pair x) xs) \<inter> set (combinationsStrictlyUpper xs) = {}"
    using Cons.prems set_combinations_subset [of x _ xs] by auto
  ultimately show ?case using Cons by simp
qed

lemma combinations_legs_differ:
  "distinct xs \<Longrightarrow> (a, b) \<in> set (combinationsStrictlyUpper xs) \<Longrightarrow> a \<noteq> b"
proof (induction xs)
  case Nil
  then show ?case by simp
next
  case (Cons x xs)
  then show ?case using set_combinations_subset [of a b xs] by auto
qed

lemma set_combinations_upt:
  "set (combinationsStrictlyUpper [i..<n]) = {(a, b). i \<le> a \<and> a < b \<and> b < n}"
proof (induction "n - i" arbitrary: i)
  case 0
  then show ?case by simp
next
  case (Suc m)
  then have lt: "i < n" and m: "m = n - Suc i"
    by simp_all
  from lt have "[i..<n] = i # [Suc i..<n]"
    by (rule upt_conv_Cons)
  then have "set (combinationsStrictlyUpper [i..<n]) =
      Pair i ` {Suc i..<n} \<union> set (combinationsStrictlyUpper [Suc i..<n])"
    by simp
  also have "\<dots> = Pair i ` {Suc i..<n} \<union> {(a, b). Suc i \<le> a \<and> a < b \<and> b < n}"
    using Suc.hyps(1) [OF m] by simp
  also have "\<dots> = {(a, b). i \<le> a \<and> a < b \<and> b < n}"
  proof -
    have "Pair i ` {Suc i..<n} = {(a, b). a = i \<and> a < b \<and> b < n}"
      by (auto simp: image_iff Suc_le_eq)
    then show ?thesis
      by (auto simp: Suc_le_eq le_less)
  qed
  finally show ?case .
qed

lemma phiBody_same_index:
  "globalIndex p1 = globalIndex p2 \<Longrightarrow> phiBody cfg ext col ids (p1, p2) s = s"
  by (simp add: phiBody_def)

lemma parentsLinked_append:
  assumes "parentsLinked base xs" and "parentsLinked (base + int (length xs)) ys"
  shows "parentsLinked base (xs @ ys)"
  unfolding parentsLinked_def
proof (intro allI impI)
  fix i ct
  assume i: "i < length (xs @ ys)"
    and ct: "childTypeOf (r_partType ((xs @ ys) ! i)) = Some ct"
  show "2 \<le> i \<and>
        r_childrenIds ((xs @ ys) ! i) = (int32_of (base + int i - 2), int32_of (base + int i - 1)) \<and>
        r_partType ((xs @ ys) ! (i - 2)) = ct \<and> r_partType ((xs @ ys) ! (i - 1)) = ct"
  proof (cases "i < length xs")
    case True
    with ct have "childTypeOf (r_partType (xs ! i)) = Some ct"
      by (simp add: nth_append)
    with assms(1) True have "2 \<le> i \<and>
        r_childrenIds (xs ! i) = (int32_of (base + int i - 2), int32_of (base + int i - 1)) \<and>
        r_partType (xs ! (i - 2)) = ct \<and> r_partType (xs ! (i - 1)) = ct"
      unfolding parentsLinked_def by blast
    moreover from True have "i - 2 < length xs" "i - 1 < length xs"
      by simp_all
    ultimately show ?thesis
      using True by (simp add: nth_append)
  next
    case False
    define j where "j = i - length xs"
    from False i have j: "j < length ys" and ij: "i = length xs + j"
      by (simp_all add: j_def)
    from ct ij have "childTypeOf (r_partType (ys ! j)) = Some ct"
      by (simp add: nth_append)
    with assms(2) j have *: "2 \<le> j \<and>
        r_childrenIds (ys ! j) =
          (int32_of (base + int (length xs) + int j - 2), int32_of (base + int (length xs) + int j - 1)) \<and>
        r_partType (ys ! (j - 2)) = ct \<and> r_partType (ys ! (j - 1)) = ct"
      unfolding parentsLinked_def by blast
    from * ij have "i - 2 = length xs + (j - 2)" "i - 1 = length xs + (j - 1)"
      by simp_all
    then have "(xs @ ys) ! (i - 2) = ys ! (j - 2)" "(xs @ ys) ! (i - 1) = ys ! (j - 1)"
      "(xs @ ys) ! i = ys ! j"
      using ij by (simp_all only: nth_append_length_plus)
    with * ij show ?thesis
      by (simp add: add.assoc)
  qed
qed

lemma parentsLinked_tracks: "parentsLinked base (map (trackRow cid) ts)"
  by (simp add: parentsLinked_def trackRow_fields)

lemma parentsLinked_v0Triple: "parentsLinked base (v0Triple ext col ids cid base v)"
  by (auto simp: parentsLinked_def v0Triple_def outputPartsRow_def less_Suc_eq numeral_3_eq_3
      algebra_simps)

lemma parentsLinked_phiTriple: "parentsLinked base (phiTriple ext col ids cid base pr)"
  by (auto simp: parentsLinked_def phiTriple_def outputPartsRow_def less_Suc_eq numeral_3_eq_3
      algebra_simps split: prod.splits)

lemma parentsLinked_triplesFrom:
  assumes "\<And>b c. parentsLinked b (mk b c)" and "\<And>b c. length (mk b c) = 3"
  shows "parentsLinked base (triplesFrom mk base cs)"
proof (induction cs arbitrary: base)
  case Nil
  show ?case by (simp add: parentsLinked_def)
next
  case (Cons c cs)
  have "parentsLinked (base + int (length (mk base c))) (triplesFrom mk (base + 3) cs)"
    using Cons.IH [of "base + 3"] by (simp add: assms(2))
  with assms(1) [of base c] show ?case
    by (simp add: parentsLinked_append)
qed

lemma parentsLinked_eventParticleRows:
  "parentsLinked base (eventParticleRows cfg ext col tracks fullV0s cid base)"
proof -
  let ?acc = "acceptedTracks ext tracks"
  let ?ids = "daughterIndexMap ext tracks"
  let ?v0s = "if ConfStoreV0 cfg then filter (v0Accepted ext col) fullV0s else []"
  let ?prs = "if ConfStorePhi cfg
              then filter (phiAccepted cfg ext) (combinationsStrictlyUpper tracks) else []"
  let ?A = "map (trackRow cid) ?acc"
  let ?B = "triplesFrom (v0Triple ext col ?ids cid) (base + int (length ?acc)) ?v0s"
  let ?C = "triplesFrom (phiTriple ext col ?ids cid) (base + int (length ?acc) + 3 * int (length ?v0s)) ?prs"
  have a: "parentsLinked base ?A"
    by (rule parentsLinked_tracks)
  have b: "parentsLinked (base + int (length ?A)) ?B"
    using parentsLinked_triplesFrom [of "v0Triple ext col ?ids cid" "base + int (length ?acc)" ?v0s]
    by (simp add: parentsLinked_v0Triple length_v0Triple)
  have lb: "length ?B = 3 * length ?v0s"
    by (rule length_triplesFrom) (rule length_v0Triple)
  have c: "parentsLinked (base + int (length (?A @ ?B))) ?C"
    using parentsLinked_triplesFrom [of "phiTriple ext col ?ids cid"
        "base + int (length ?acc) + 3 * int (length ?v0s)" ?prs]
    by (simp add: parentsLinked_phiTriple length_phiTriple lb add.assoc)
  from a b have "parentsLinked base (?A @ ?B)"
    by (rule parentsLinked_append)
  from this c have "parentsLinked base ((?A @ ?B) @ ?C)"
    by (rule parentsLinked_append)
  then show ?thesis
    by (simp add: eventParticleRows_def Let_def)
qed

lemma dyadic_gap:
  fixes m E :: nat
  assumes "m < 2 ^ 24"
  shows "real m * 2 ^ E / 2 ^ 150 \<le> 13421772 / 2 ^ 25 \<or>
         13421773 / 2 ^ 25 \<le> real m * 2 ^ E / 2 ^ 150"
proof (cases "E < 125")
  case True
  then have "(2 :: real) ^ E \<le> 2 ^ 124"
    by (intro power_increasing) simp_all
  moreover from assms have "real m \<le> 2 ^ 24"
    by (metis less_imp_le of_nat_le_iff of_nat_numeral of_nat_power)
  ultimately have "real m * 2 ^ E \<le> 2 ^ 24 * 2 ^ 124"
    by (intro mult_mono) simp_all
  then have "real m * 2 ^ E / 2 ^ 150 \<le> 2 ^ 24 * 2 ^ 124 / 2 ^ 150"
    by (intro divide_right_mono) simp_all
  also have "\<dots> \<le> (13421772 :: real) / 2 ^ 25"
    by simp
  finally show ?thesis by simp
next
  case False
  then obtain k where k: "E = 125 + k"
    by (metis le_add_diff_inverse not_less)
  have eq: "real m * 2 ^ E / 2 ^ 150 = real (m * 2 ^ k) / 2 ^ 25"
    by (simp add: k power_add)
  have "m * 2 ^ k \<le> 13421772 \<or> 13421773 \<le> m * 2 ^ k"
    by linarith
  then show ?thesis
  proof
    assume "m * 2 ^ k \<le> 13421772"
    then have "real (m * 2 ^ k) \<le> 13421772"
      by (metis of_nat_le_iff of_nat_numeral)
    then have "real (m * 2 ^ k) / 2 ^ 25 \<le> 13421772 / 2 ^ 25"
      by (intro divide_right_mono) simp_all
    then show ?thesis unfolding eq by (rule disjI1)
  next
    assume "13421773 \<le> m * 2 ^ k"
    then have "13421773 \<le> real (m * 2 ^ k)"
      by (metis of_nat_le_iff of_nat_numeral)
    then have "13421773 / 2 ^ 25 \<le> real (m * 2 ^ k) / 2 ^ 25"
      by (intro divide_right_mono) simp_all
    then show ?thesis unfolding eq by (rule disjI2)
  qed
qed

lemma valof32_gap:
  "valof32 w \<le> 13421772 / 2 ^ 25 \<or> 13421773 / 2 ^ 25 \<le> valof32 w"
proof (cases "f32_sign w")
  case True
  have "0 \<le> real (f32_fraction w) * 2 ^ 1 / 2 ^ 150"
    "0 \<le> real (2 ^ 23 + f32_fraction w) * 2 ^ f32_exponent w / 2 ^ 150"
    by simp_all
  with True have "valof32 w \<le> 0"
    by (simp add: valof32_def)
  then show ?thesis by simp
next
  case False
  have f: "f32_fraction w < 2 ^ 23"
    by (simp add: f32_fraction_def)
  then have "f32_fraction w < 2 ^ 24" "2 ^ 23 + f32_fraction w < 2 ^ 24"
    by simp_all
  note sub = dyadic_gap [OF this(1), of 1] and nor = dyadic_gap [OF this(2), of "f32_exponent w"]
  show ?thesis
  proof (cases "f32_exponent w = 0")
    case True
    with False have "valof32 w = real (f32_fraction w) * 2 ^ 1 / 2 ^ 150"
      by (simp only: valof32_def simp_thms if_True if_False mult_1)
    with sub show ?thesis by (simp only:)
  next
    case e: False
    with False have "valof32 w = real (2 ^ 23 + f32_fraction w) * 2 ^ f32_exponent w / 2 ^ 150"
      by (simp only: valof32_def simp_thms if_True if_False mult_1)
    with nor show ?thesis by (simp only:)
  qed
qed

lemma between_floats:
  "(13421772 :: real) / 2 ^ 25 < 0.4" "(0.4 :: real) < double_0_4"
  "double_0_4 < 13421773 / 2 ^ 25"
  by (simp_all add: double_0_4_def)

lemma valof32_branches:
  "(valof32 w < 0.4 \<or> valof32 w > 0.4) \<and>
   (valof32 w < 0.4 \<longleftrightarrow> valof32 w < double_0_4) \<and>
   (valof32 w > 0.4 \<longleftrightarrow> valof32 w > double_0_4)"
  using valof32_gap [of w] between_floats by linarith

lemma valof32_float_0_4: "valof32 float_0_4 = 13421773 / 2 ^ 25"
  by (simp add: valof32_def float_0_4_def f32_sign_def f32_exponent_def f32_fraction_def)

section \<open>Properties\<close>

subsection \<open>Storage condition of composite candidates\<close>

text \<open>
  C1 (amended). A V0 candidate adds its three rows exactly when it passes the minimal
  selection and its own bitmap and the bitmaps of both daughters are positive; when one
  of the three bitmaps is zero it adds no row. A track pair adds its three rows exactly
  when it passes the gates and the mass window: the condition in front of the three
  writes is the constant true, so the rows are written whatever cut container the Phi
  selection returns.
\<close>

theorem composite_storage_condition:
  "particleRows (trace (v0Body ext col ids v s)) =
     particleRows (trace s) @
     (if v0IsSelectedMinimal ext col v \<and> 0 < at_kV0 (v0GetCutContainer ext col v) \<and>
         0 < at_kPosCuts (v0GetCutContainer ext col v) \<and>
         0 < at_kNegCuts (v0GetCutContainer ext col v)
      then v0Triple ext col ids (int32_of (outputCollision_lastIndex s))
             (int (length (particleRows (trace s)))) v
      else []) \<and>
   (at_kV0 (v0GetCutContainer ext col v) = 0 \<or> at_kPosCuts (v0GetCutContainer ext col v) = 0 \<or>
    at_kNegCuts (v0GetCutContainer ext col v) = 0 \<longrightarrow>
      particleRows (trace (v0Body ext col ids v s)) = particleRows (trace s)) \<and>
   particleRows (trace (phiBody cfg ext col ids pr s)) =
     particleRows (trace s) @
     (if phiGates cfg pr \<and> phiInMassWindow cfg ext pr
      then phiTriple ext col ids (int32_of (outputCollision_lastIndex s))
             (int (length (particleRows (trace s)))) pr
      else []) \<and>
   (phiGates cfg pr \<and> phiInMassWindow cfg ext pr \<longrightarrow>
      length (particleRows (trace (phiBody cfg (ext\<lparr>phiGetCutContainer := g\<rparr>) col ids pr s))) =
        length (particleRows (trace s)) + 3)"
proof (intro conjI impI)
  show "particleRows (trace (v0Body ext col ids v s)) =
     particleRows (trace s) @
     (if v0IsSelectedMinimal ext col v \<and> 0 < at_kV0 (v0GetCutContainer ext col v) \<and>
         0 < at_kPosCuts (v0GetCutContainer ext col v) \<and>
         0 < at_kNegCuts (v0GetCutContainer ext col v)
      then v0Triple ext col ids (int32_of (outputCollision_lastIndex s))
             (int (length (particleRows (trace s)))) v
      else [])"
    by (simp add: v0Body_rows v0Accepted_def)
next
  assume "at_kV0 (v0GetCutContainer ext col v) = 0 \<or> at_kPosCuts (v0GetCutContainer ext col v) = 0 \<or>
    at_kNegCuts (v0GetCutContainer ext col v) = 0"
  then have "\<not> v0Accepted ext col v"
    by (auto simp: v0Accepted_def)
  then show "particleRows (trace (v0Body ext col ids v s)) = particleRows (trace s)"
    by (simp add: v0Body_rows)
next
  show "particleRows (trace (phiBody cfg ext col ids pr s)) =
     particleRows (trace s) @
     (if phiGates cfg pr \<and> phiInMassWindow cfg ext pr
      then phiTriple ext col ids (int32_of (outputCollision_lastIndex s))
             (int (length (particleRows (trace s)))) pr
      else [])"
    by (simp add: phiBody_rows phiAccepted_def)
next
  assume "phiGates cfg pr \<and> phiInMassWindow cfg ext pr"
  then have "phiAccepted cfg (ext\<lparr>phiGetCutContainer := g\<rparr>) pr"
    by (simp add: phiAccepted_cutContainer) (simp add: phiAccepted_def)
  then show "length (particleRows (trace (phiBody cfg (ext\<lparr>phiGetCutContainer := g\<rparr>) col ids pr s))) =
        length (particleRows (trace s)) + 3"
    by (simp add: phiBody_rows length_phiTriple)
qed

theorem composite_storage_condition_witness:
  "at_kPosCuts (v0GetCutContainer exExtZero (exCol 1 10 0) exV0) = 0 \<and>
   particleRows (trace (v0Body exExtZero (exCol 1 10 0) [1] exV0 exState)) =
     particleRows (trace exState) \<and>
   phiGates defaultConf (exTrack 0 0.3, exTrack 1 1) \<and>
   phiInMassWindow defaultConf exExt (exTrack 0 0.3, exTrack 1 1) \<and>
   length (particleRows (trace (phiBody defaultConf
       (exExt\<lparr>phiGetCutContainer := phiGetCutContainer exExt\<rparr>) (exCol 1 10 0) [1]
       (exTrack 0 0.3, exTrack 1 1) exState))) =
     length (particleRows (trace exState)) + 3"
proof -
  have h1: "at_kPosCuts (v0GetCutContainer exExtZero (exCol 1 10 0) exV0) = 0"
    by (simp add: exExtZero_def)
  have h2: "phiGates defaultConf (exTrack 0 0.3, exTrack 1 1) \<and>
      phiInMassWindow defaultConf exExt (exTrack 0 0.3, exTrack 1 1)"
    using ex_phiAccepted by (simp add: phiAccepted_def)
  from h1 h2
    composite_storage_condition [of exExtZero "exCol 1 10 0" "[1]" exV0 exState]
    composite_storage_condition [where ext = exExt and col = "exCol 1 10 0" and ids = "[1]"
      and v = exV0 and s = exState and cfg = defaultConf
      and pr = "(exTrack 0 0.3, exTrack 1 1)" and g = "phiGetCutContainer exExt"]
  show ?thesis by blast
qed

text \<open>
  C1 as stated fails for a track pair: the three bitmaps of its cut container are zero
  and its three rows are written all the same.
\<close>

theorem phi_stored_with_zero_bitmaps_counterexample:
  "phiGetCutContainer exExt (exCol 1 10 0) (exTrack 0 0.3) (exTrack 1 1) =
     \<lparr> at_kV0 = 0, at_kPosCuts = 0, at_kPosPID = 0, at_kNegCuts = 0, at_kNegPID = 0 \<rparr> \<and>
   map (\<lambda>r. (r_partType r, r_cut r))
     (particleRows (trace (phiBody defaultConf exExt (exCol 1 10 0) [1]
        (exTrack 0 0.3, exTrack 1 1) exState))) =
   [(kPhiChild, 0), (kPhiChild, 0), (kPhi, 0)]"
proof -
  have a: "phiGetCutContainer exExt c t1 t2 =
     \<lparr> at_kV0 = 0, at_kPosCuts = 0, at_kPosPID = 0, at_kNegCuts = 0, at_kNegPID = 0 \<rparr>" for c t1 t2
    by (simp add: exExt_def)
  have b: "particleRows (trace exState) = []"
    by (simp add: exState_def particleRows_simps)
  show ?thesis
    by (simp add: phiBody_rows ex_phiAccepted phiTriple_def outputPartsRow_def a b)
qed

subsection \<open>The kaon gate in the pair loop\<close>

text \<open>
  C2 (amended). With \<open>ConfNsigmaTPCTOFKaon\<close> enabled, a leg of momentum below 0.4 passes
  the kaon gate exactly when \<open>|nsigma_TPC| < ConfNsigmaTPCKaon\<close>, and a leg of momentum
  above 0.4 exactly when \<open>hypot(nsigma_TOF, nsigma_TPC) < ConfNsigmaCombinedKaon\<close>. A
  pair with a leg that fails the gate leaves the loop body before the mass is
  reconstructed: no histogram is filled, no row is written, the state is unchanged.
\<close>

theorem kaon_gate_before_mass:
  "(ConfNsigmaTPCTOFKaon cfg \<and> mom < 0.4 \<longrightarrow>
      IsKaonNSigma cfg mom nsigmaTPCK nsigmaTOFK = (\<bar>nsigmaTPCK\<bar> < ConfNsigmaTPCKaon cfg)) \<and>
   (ConfNsigmaTPCTOFKaon cfg \<and> mom > 0.4 \<longrightarrow>
      IsKaonNSigma cfg mom nsigmaTPCK nsigmaTOFK =
        (Hypot nsigmaTOFK nsigmaTPCK < ConfNsigmaCombinedKaon cfg)) \<and>
   (\<not> IsKaonNSigma cfg (p p1) (tpcNSigmaKa p1) (tofNSigmaKa p1) \<or>
    \<not> IsKaonNSigma cfg (p p2) (tpcNSigmaKa p2) (tofNSigmaKa p2) \<longrightarrow>
      phiBody cfg ext col ids (p1, p2) s = s)"
proof (intro conjI impI)
  assume "ConfNsigmaTPCTOFKaon cfg \<and> mom < 0.4"
  then show "IsKaonNSigma cfg mom nsigmaTPCK nsigmaTOFK = (\<bar>nsigmaTPCK\<bar> < ConfNsigmaTPCKaon cfg)"
    by (simp add: IsKaonNSigma_def)
next
  assume "ConfNsigmaTPCTOFKaon cfg \<and> mom > 0.4"
  then show "IsKaonNSigma cfg mom nsigmaTPCK nsigmaTOFK =
        (Hypot nsigmaTOFK nsigmaTPCK < ConfNsigmaCombinedKaon cfg)"
    by (simp add: IsKaonNSigma_def)
next
  assume "\<not> IsKaonNSigma cfg (p p1) (tpcNSigmaKa p1) (tofNSigmaKa p1) \<or>
    \<not> IsKaonNSigma cfg (p p2) (tpcNSigmaKa p2) (tofNSigmaKa p2)"
  then have "\<not> phiGates cfg (p1, p2)"
    by (auto simp: phiGates_def)
  then show "phiBody cfg ext col ids (p1, p2) s = s"
    by (simp add: phiBody_emits phiEffects_def emits_Nil)
qed

theorem kaon_gate_before_mass_witness:
  "ConfNsigmaTPCTOFKaon defaultConf \<and> (0.3 :: real) < 0.4 \<and>
   IsKaonNSigma defaultConf 0.3 1 0 = (\<bar>1 :: real\<bar> < ConfNsigmaTPCKaon defaultConf) \<and>
   (1 :: real) > 0.4 \<and>
   IsKaonNSigma defaultConf 1 3 4 = (Hypot 4 3 < ConfNsigmaCombinedKaon defaultConf) \<and>
   \<not> IsKaonNSigma defaultConf (p exKaonFail) (tpcNSigmaKa exKaonFail) (tofNSigmaKa exKaonFail) \<and>
   phiBody defaultConf exExt (exCol 1 10 0) [1] (exTrack 1 1, exKaonFail) exState = exState"
proof -
  have h0: "ConfNsigmaTPCTOFKaon defaultConf"
    by (simp add: defaultConf_def)
  have h1: "(0.3 :: real) < 0.4" and h2: "(1 :: real) > 0.4"
    by simp_all
  have h3: "\<not> IsKaonNSigma defaultConf (p exKaonFail) (tpcNSigmaKa exKaonFail) (tofNSigmaKa exKaonFail)"
    by (simp add: IsKaonNSigma_def exKaonFail_def exTrack_def defaultConf_def Hypot_less_iff)
  from h0 h1 h2 h3
    kaon_gate_before_mass [where cfg = defaultConf and mom = "0.3" and nsigmaTPCK = 1
      and nsigmaTOFK = 0 and ?p1.0 = "exTrack 1 1" and ?p2.0 = exKaonFail and ext = exExt
      and col = "exCol 1 10 0" and ids = "[1]" and s = exState]
    kaon_gate_before_mass [where cfg = defaultConf and mom = 1 and nsigmaTPCK = 3
      and nsigmaTOFK = 4 and ?p1.0 = "exTrack 1 1" and ?p2.0 = exKaonFail and ext = exExt
      and col = "exCol 1 10 0" and ids = "[1]" and s = exState]
  show ?thesis by blast
qed

text \<open>
  C2 as stated fails when \<open>ConfNsigmaTPCTOFKaon\<close> is disabled: a track of momentum 0.3
  with a TPC n-sigma of 0 is below the threshold of 5 and still does not pass the gate.
\<close>

theorem kaon_gate_switch_off_counterexample:
  "(0.3 :: real) < 0.4 \<and>
   \<bar>0 :: real\<bar> < ConfNsigmaTPCKaon (defaultConf\<lparr>ConfNsigmaTPCTOFKaon := False\<rparr>) \<and>
   \<not> IsKaonNSigma (defaultConf\<lparr>ConfNsigmaTPCTOFKaon := False\<rparr>) 0.3 0 0"
  by (simp add: IsKaonNSigma_def defaultConf_def)

subsection \<open>Magnetic field at a change of run\<close>

text \<open>
  C3. The code at two events of different runs: the first event (run 1) fetches the
  GRP object; at the second event (run 2) the run number differs, the conditions
  database holds another field for its timestamp, and yet no query is made and the
  field of run 1 is kept. A third event of a run for which the database has no object
  does not abort either.
\<close>

theorem magField_not_refreshed:
  "updateMagField exExt \<lparr> runNumber = 1, timestamp = 10 \<rparr> initState = Inr exState \<and>
   mMagField exState = 0.5 \<and>
   trace exState = [CcdbGetForTimeStamp 10] \<and>
   ccdbGRP exExt 20 = Some \<lparr> nominalL3Field = - 5 \<rparr> \<and>
   updateMagField exExt \<lparr> runNumber = 2, timestamp = 20 \<rparr> exState =
     Inr (exState\<lparr>mRunNumber := 2\<rparr>) \<and>
   processProd defaultConf exExt (exCol 2 20 11) [] [] exState = Inr (exState\<lparr>mRunNumber := 2\<rparr>) \<and>
   ccdbGRP exExt 30 = None \<and>
   updateMagField exExt \<lparr> runNumber = 3, timestamp = 30 \<rparr> exState =
     Inr (exState\<lparr>mRunNumber := 3\<rparr>) \<and>
   updateMagField exExt \<lparr> runNumber = 3, timestamp = 30 \<rparr> initState = Inl (FatalGRPNotFound 30)"
  by (simp add: updateMagField_def getMagneticFieldTesla_def initState_def exExt_def
      exState_def emit_def processProd_def exCol_def defaultConf_def)

subsection \<open>Resolution of daughter indices\<close>

text \<open>
  C4 (amended). The track loop builds the vector of the identifiers of the accepted
  tracks; an identifier that no accepted track has is not in it. For a daughter that is
  not in the vector \<^verbatim>\<open>getRowDaughters\<close> returns \<open>-1\<close>, a value that no daughter found in
  the vector gets, and this \<open>-1\<close> is what the child row of a stored V0 candidate or
  track pair carries in the slot of that daughter (the other slot holds 0).
\<close>

theorem daughter_index_resolution:
  "fst (fold (trackBody ext (0, 0)) tracks ([], s)) = daughterIndexMap ext tracks \<and>
   ((\<forall>t \<in> set tracks. trkIsSelectedMinimal ext t \<longrightarrow> int32_of (globalIndex t) \<noteq> d) \<longrightarrow>
      d \<notin> set (daughterIndexMap ext tracks)) \<and>
   (d \<notin> set ids \<longrightarrow> getRowDaughters d ids = - 1) \<and>
   (d \<in> set ids \<and> length ids \<le> 2 ^ 31 \<longrightarrow> getRowDaughters d ids \<noteq> - 1) \<and>
   (v0Accepted ext col v \<and> posTrackId v \<notin> set ids \<longrightarrow>
      r_childrenIds (particleRows (trace (v0Body ext col ids v s')) ! length (particleRows (trace s'))) =
        (- 1, 0)) \<and>
   (v0Accepted ext col v \<and> negTrackId v \<notin> set ids \<longrightarrow>
      r_childrenIds (particleRows (trace (v0Body ext col ids v s')) ! (length (particleRows (trace s')) + 1)) =
        (0, - 1)) \<and>
   (phiAccepted cfg ext (p1, p2) \<and> int32_of (globalIndex p1) \<notin> set ids \<longrightarrow>
      r_childrenIds (particleRows (trace (phiBody cfg ext col ids (p1, p2) s')) ! length (particleRows (trace s'))) =
        (- 1, 0)) \<and>
   (phiAccepted cfg ext (p1, p2) \<and> int32_of (globalIndex p2) \<notin> set ids \<longrightarrow>
      r_childrenIds (particleRows (trace (phiBody cfg ext col ids (p1, p2) s')) ! (length (particleRows (trace s')) + 1)) =
        (0, - 1))"
proof (intro conjI impI)
  show "fst (fold (trackBody ext (0, 0)) tracks ([], s)) = daughterIndexMap ext tracks"
    by (rule trackLoop_map)
next
  assume "\<forall>t \<in> set tracks. trkIsSelectedMinimal ext t \<longrightarrow> int32_of (globalIndex t) \<noteq> d"
  then show "d \<notin> set (daughterIndexMap ext tracks)"
    by (rule filtered_out_absent)
next
  assume "d \<notin> set ids"
  then show "getRowDaughters d ids = - 1"
    by (rule getRowDaughters_absent)
next
  assume "d \<in> set ids \<and> length ids \<le> 2 ^ 31"
  then have "0 \<le> getRowDaughters d ids"
    by (simp add: getRowDaughters_found)
  then show "getRowDaughters d ids \<noteq> - 1"
    by simp
next
  assume "v0Accepted ext col v \<and> posTrackId v \<notin> set ids"
  then show "r_childrenIds (particleRows (trace (v0Body ext col ids v s')) ! length (particleRows (trace s'))) =
        (- 1, 0)"
    by (simp add: v0Body_rows v0Triple_def outputPartsRow_def nth_append getRowDaughters_absent)
next
  assume "v0Accepted ext col v \<and> negTrackId v \<notin> set ids"
  then show "r_childrenIds (particleRows (trace (v0Body ext col ids v s')) ! (length (particleRows (trace s')) + 1)) =
        (0, - 1)"
    by (simp add: v0Body_rows v0Triple_def outputPartsRow_def nth_append getRowDaughters_absent)
next
  assume "phiAccepted cfg ext (p1, p2) \<and> int32_of (globalIndex p1) \<notin> set ids"
  then show "r_childrenIds (particleRows (trace (phiBody cfg ext col ids (p1, p2) s')) ! length (particleRows (trace s'))) =
        (- 1, 0)"
    by (simp add: phiBody_rows phiTriple_def outputPartsRow_def nth_append getRowDaughters_absent)
next
  assume "phiAccepted cfg ext (p1, p2) \<and> int32_of (globalIndex p2) \<notin> set ids"
  then show "r_childrenIds (particleRows (trace (phiBody cfg ext col ids (p1, p2) s')) ! (length (particleRows (trace s')) + 1)) =
        (0, - 1)"
    by (simp add: phiBody_rows phiTriple_def outputPartsRow_def nth_append getRowDaughters_absent)
qed

theorem daughter_index_resolution_witness:
  "(0 :: int) \<notin> set [1] \<and> getRowDaughters 0 [1] = - 1 \<and>
   (1 :: int) \<in> set [1] \<and> getRowDaughters 1 [1] \<noteq> - 1 \<and>
   0 \<notin> set (daughterIndexMap exExt [exTrack 0 0.3, exTrack 1 1]) \<and>
   v0Accepted exExt (exCol 1 10 0) exV0 \<and> posTrackId exV0 \<notin> set [1] \<and>
   r_childrenIds (particleRows (trace (v0Body exExt (exCol 1 10 0) [1] exV0 exState)) !
       length (particleRows (trace exState))) = (- 1, 0) \<and>
   v0Accepted exExt (exCol 1 10 0) exV0Neg \<and> negTrackId exV0Neg \<notin> set [1] \<and>
   r_childrenIds (particleRows (trace (v0Body exExt (exCol 1 10 0) [1] exV0Neg exState)) !
       (length (particleRows (trace exState)) + 1)) = (0, - 1) \<and>
   phiAccepted defaultConf exExt (exTrack 0 0.3, exTrack 1 1) \<and>
   int32_of (globalIndex (exTrack 0 0.3)) \<notin> set [1] \<and>
   r_childrenIds (particleRows (trace (phiBody defaultConf exExt (exCol 1 10 0) [1]
       (exTrack 0 0.3, exTrack 1 1) exState)) ! length (particleRows (trace exState))) = (- 1, 0) \<and>
   phiAccepted defaultConf exExt (exTrack 1 1, exTrack 0 0.3) \<and>
   int32_of (globalIndex (exTrack 0 0.3)) \<notin> set [1] \<and>
   r_childrenIds (particleRows (trace (phiBody defaultConf exExt (exCol 1 10 0) [1]
       (exTrack 1 1, exTrack 0 0.3) exState)) ! (length (particleRows (trace exState)) + 1)) = (0, - 1)"
proof -
  let ?ts = "[exTrack 0 0.3, exTrack 1 1]"
  have a: "\<forall>t \<in> set ?ts. trkIsSelectedMinimal exExt t \<longrightarrow> int32_of (globalIndex t) \<noteq> 0"
    by (simp add: exExt_def exTrack_def)
  have b: "(0 :: int) \<notin> set [1]" "(1 :: int) \<in> set [1] \<and> length [1 :: int] \<le> 2 ^ 31"
    by simp_all
  have c: "v0Accepted exExt (exCol 1 10 0) exV0 \<and> posTrackId exV0 \<notin> set [1]"
    "v0Accepted exExt (exCol 1 10 0) exV0Neg \<and> negTrackId exV0Neg \<notin> set [1]"
    by (simp_all add: v0Accepted_def exExt_def exV0_def exV0Neg_def)
  have g: "int32_of (globalIndex (exTrack 0 0.3)) \<notin> set [1]"
    by (simp add: exTrack_def)
  have "phiAccepted defaultConf exExt (exTrack 1 1, exTrack 0 0.3)"
    by (simp add: phiAccepted_def phiGates_def phiInMassWindow_def phiSumVec_def exExt_def
      exTrack_def defaultConf_def IsKaonNSigma_def Hypot_less_iff cfgPtLowPart1_def
      cfgPtHighPart1_def cfgPLowPart1_def cfgPHighPart1_def cfgEtaLowPart1_def
      cfgEtaHighPart1_def cfgPtLowPart2_def cfgPtHighPart2_def cfgPLowPart2_def
      cfgPHighPart2_def cfgEtaLowPart2_def cfgEtaHighPart2_def)
  with g ex_phiAccepted have e:
    "phiAccepted defaultConf exExt (exTrack 0 0.3, exTrack 1 1) \<and>
       int32_of (globalIndex (exTrack 0 0.3)) \<notin> set [1]"
    "phiAccepted defaultConf exExt (exTrack 1 1, exTrack 0 0.3) \<and>
       int32_of (globalIndex (exTrack 0 0.3)) \<notin> set [1]"
    by simp_all
  note t1 = daughter_index_resolution [where ext = exExt and tracks = ?ts and d = 0
      and ids = "[1]" and col = "exCol 1 10 0" and v = exV0 and s' = exState and s = exState
      and cfg = defaultConf and ?p1.0 = "exTrack 0 0.3" and ?p2.0 = "exTrack 1 1"]
  note t2 = daughter_index_resolution [where ext = exExt and tracks = ?ts and d = 1
      and ids = "[1]" and col = "exCol 1 10 0" and v = exV0Neg and s' = exState and s = exState
      and cfg = defaultConf and ?p1.0 = "exTrack 1 1" and ?p2.0 = "exTrack 0 0.3"]
  from a b c e t1 t2 show ?thesis by blast
qed

text \<open>
  C4 as stated fails on the concrete event: the positive daughter of the V0 candidate
  (track 0) does not pass the minimal selection, and the first child-index field of its
  child row is \<open>-1\<close>, not 0. The columns shown are the type and the child-index pair of
  each particle row of the event.
\<close>

theorem excluded_daughter_counterexample:
  "\<not> trkIsSelectedMinimal exExt (exTrack 0 0.3) \<and>
   posTrackId exV0 = globalIndex (exTrack 0 0.3) \<and>
   (case processProd defaultConf exExt (exCol 1 10 0) [exTrack 0 0.3, exTrack 1 1] [exV0] initState of
      Inl e \<Rightarrow> []
    | Inr s' \<Rightarrow> map (\<lambda>r. (r_partType r, r_childrenIds r)) (particleRows (trace s'))) =
   [(kTrack, (0, 0)), (kV0Child, (- 1, 0)), (kV0Child, (0, 0)), (kV0, (1, 2)),
    (kPhiChild, (- 1, 0)), (kPhiChild, (0, 0)), (kPhi, (4, 5))]"
proof -
  have zip_cols: "map (\<lambda>r. (r_partType r, r_childrenIds r)) rows =
        zip (map fst (map (\<lambda>r. (r_partType r, r_cut r)) rows)) (map r_childrenIds rows)"
    for rows :: "partRow list"
    by (induction rows) simp_all
  have a: "\<not> trkIsSelectedMinimal exExt (exTrack 0 0.3)"
    by (simp add: exExt_def exTrack_def)
  have b: "posTrackId exV0 = globalIndex (exTrack 0 0.3)"
    by (simp add: exTrack_def exV0_def)
  have c: "(case processProd defaultConf exExt (exCol 1 10 0) [exTrack 0 0.3, exTrack 1 1] [exV0] initState of
      Inl e \<Rightarrow> []
    | Inr s' \<Rightarrow> map (\<lambda>r. (r_partType r, r_childrenIds r)) (particleRows (trace s'))) =
   [(kTrack, (0, 0)), (kV0Child, (- 1, 0)), (kV0Child, (0, 0)), (kV0, (1, 2)),
    (kPhiChild, (- 1, 0)), (kPhiChild, (0, 0)), (kPhi, (4, 5))]"
    unfolding ex_processProd sum.case ex_particleRows zip_cols ex_event_types ex_event_rows
    by simp
  from a b c show ?thesis by blast
qed

subsection \<open>The three rows of a V0 candidate\<close>

text \<open>
  C5 (amended). A stored V0 candidate adds exactly three rows to the particle table: two
  rows of type \<open>kV0Child\<close> followed by one row of type \<open>kV0\<close>. The child-index pair of
  the parent row holds the indices of the two child rows just written, and the rows at
  these indices carry pt, eta and phi of the positive and of the negative daughter as
  the V0 candidate gives them (\<open>positivept\<close>, ..., \<open>negativephi\<close>), not the pt, eta and
  phi of the daughter track rows. The index of the second child row must fit the
  32-bit \<^verbatim>\<open>int\<close> that stores it.
\<close>

theorem v0_three_rows:
  assumes "v0Accepted ext col v" and "length (particleRows (trace s)) + 1 < 2 ^ 31"
  shows "let old = particleRows (trace s);
             new = particleRows (trace (v0Body ext col ids v s));
             n = length old
         in length new = n + 3 \<and> take n new = old \<and>
            r_partType (new ! n) = kV0Child \<and> r_partType (new ! (n + 1)) = kV0Child \<and>
            r_partType (new ! (n + 2)) = kV0 \<and>
            r_childrenIds (new ! (n + 2)) = (int n, int (n + 1)) \<and>
            r_pt (new ! n) = positivept v \<and> r_eta (new ! n) = positiveeta v \<and>
            r_phi (new ! n) = positivephi v \<and>
            r_pt (new ! (n + 1)) = negativept v \<and> r_eta (new ! (n + 1)) = negativeeta v \<and>
            r_phi (new ! (n + 1)) = negativephi v"
proof -
  let ?n = "length (particleRows (trace s))"
  have a: "int32_of (int ?n) = int ?n" and b: "int32_of (int ?n + 1) = int ?n + 1"
    using assms(2) by (simp_all add: int32_of_id)
  show ?thesis
    using assms(1)
    by (simp add: Let_def v0Body_rows v0Triple_def outputPartsRow_def nth_append a b)
qed

theorem v0_three_rows_witness:
  "v0Accepted exExt (exCol 1 10 0) exV0 \<and>
   length (particleRows (trace exState)) + 1 < 2 ^ 31 \<and>
   (let old = particleRows (trace exState);
        new = particleRows (trace (v0Body exExt (exCol 1 10 0) [1] exV0 exState));
        n = length old
    in length new = n + 3 \<and> take n new = old \<and>
       r_partType (new ! n) = kV0Child \<and> r_partType (new ! (n + 1)) = kV0Child \<and>
       r_partType (new ! (n + 2)) = kV0 \<and>
       r_childrenIds (new ! (n + 2)) = (int n, int (n + 1)) \<and>
       r_pt (new ! n) = positivept exV0 \<and> r_eta (new ! n) = positiveeta exV0 \<and>
       r_phi (new ! n) = positivephi exV0 \<and>
       r_pt (new ! (n + 1)) = negativept exV0 \<and> r_eta (new ! (n + 1)) = negativeeta exV0 \<and>
       r_phi (new ! (n + 1)) = negativephi exV0)"
proof -
  have h1: "v0Accepted exExt (exCol 1 10 0) exV0"
    by (simp add: v0Accepted_def exExt_def)
  have h2: "length (particleRows (trace exState)) + 1 < 2 ^ 31"
    by (simp add: exState_def particleRows_simps)
  from v0_three_rows [OF h1 h2] h1 h2 show ?thesis by blast
qed

text \<open>
  C5 as stated fails on the concrete V0 candidate: the child rows carry the eta and phi
  that the V0 row gives for its daughters, which are not the eta and phi of the daughter
  track rows.
\<close>

theorem v0_child_kinematics_counterexample:
  "v0Accepted exExt (exCol 1 10 0) exV0 \<and>
   map (\<lambda>r. (r_pt r, r_eta r, r_phi r))
     (take 2 (particleRows (trace (v0Body exExt (exCol 1 10 0) [1] exV0 exState)))) =
     [(0.3, 0.1, 0.2), (1, 0.4, 0.5)] \<and>
   map (\<lambda>t. (pt t, eta t, phi t)) [posTrack exV0, negTrack exV0] = [(0.3, 0, 0), (1, 0, 0)]"
proof -
  have a: "v0Accepted exExt (exCol 1 10 0) exV0"
    by (simp add: v0Accepted_def exExt_def)
  have b: "particleRows (trace exState) = []"
    by (simp add: exState_def particleRows_simps)
  have c: "map (\<lambda>r. (r_pt r, r_eta r, r_phi r))
     (take 2 (particleRows (trace (v0Body exExt (exCol 1 10 0) [1] exV0 exState)))) =
     [(0.3, 0.1, 0.2), (1, 0.4, 0.5)]"
  proof -
    have f: "positivept exV0 = 0.3" "positiveeta exV0 = 0.1" "positivephi exV0 = 0.2"
      "negativept exV0 = 1" "negativeeta exV0 = 0.4" "negativephi exV0 = 0.5"
      by (simp_all add: exV0_def)
    show ?thesis
      by (simp add: v0Body_rows a b v0Triple_def outputPartsRow_def f)
  qed
  have d: "map (\<lambda>t. (pt t, eta t, phi t)) [posTrack exV0, negTrack exV0] = [(0.3, 0, 0), (1, 0, 0)]"
    by (simp add: exV0_def exTrack_def)
  from a c d show ?thesis by blast
qed

subsection \<open>Order of emission\<close>

text \<open>
  C6. For an accepted event the rows are written in a fixed order: the event row first,
  then one Track row for each track that passes the minimal selection, in the order of
  the track table, then the triples of the stored V0 candidates in the order of the V0
  table, then the triples of the stored track pairs in the order of the pair
  enumeration (increasing index pairs). Every parent row comes directly after its two
  child rows and carries their two table indices.
\<close>

theorem emission_order:
  assumes "updateMagField ext (bc col) s = Inr s0" and "colIsSelected ext col"
  shows "\<exists>s'. processProd cfg ext col tracks fullV0s s = Inr s' \<and>
     outputs (trace s') = outputs (trace s) @
       OutputCollision (eventRow cfg ext col tracks (mMagField s0)) #
       map OutputParts (eventParticleRows cfg ext col tracks fullV0s
          (int32_of (int (length (collisionRows (trace s)))))
          (int (length (particleRows (trace s))))) \<and>
     parentsLinked (int (length (particleRows (trace s))))
       (eventParticleRows cfg ext col tracks fullV0s
          (int32_of (int (length (collisionRows (trace s)))))
          (int (length (particleRows (trace s)))))"
  using assms updateMagField_rows [OF assms(1)]
  by (simp add: processProd_accepted emits_fields outputs_simps rows_acceptedEffects
      outputCollision_lastIndex_def outputParts_lastIndex_def lastIndex_def
      parentsLinked_eventParticleRows)

theorem emission_order_witness:
  "updateMagField exExt (bc (exCol 1 10 0)) initState = Inr exState \<and>
   colIsSelected exExt (exCol 1 10 0) \<and>
   (\<exists>s'. processProd defaultConf exExt (exCol 1 10 0) [exTrack 0 0.3, exTrack 1 1] [exV0] initState = Inr s' \<and>
      outputs (trace s') = outputs (trace initState) @
        OutputCollision (eventRow defaultConf exExt (exCol 1 10 0) [exTrack 0 0.3, exTrack 1 1] (mMagField exState)) #
        map OutputParts (eventParticleRows defaultConf exExt (exCol 1 10 0) [exTrack 0 0.3, exTrack 1 1] [exV0]
          (int32_of (int (length (collisionRows (trace initState)))))
          (int (length (particleRows (trace initState)))))) \<and>
   map r_partType (eventParticleRows defaultConf exExt (exCol 1 10 0) [exTrack 0 0.3, exTrack 1 1] [exV0] 0 0) =
     [kTrack, kV0Child, kV0Child, kV0, kPhiChild, kPhiChild, kPhi]"
proof -
  have h1: "updateMagField exExt (bc (exCol 1 10 0)) initState = Inr exState"
    by (rule ex_updateMagField)
  have h2: "colIsSelected exExt (exCol 1 10 0)"
    by (simp add: exExt_def exCol_def)
  have "map r_partType rows = map fst (map (\<lambda>r. (r_partType r, r_cut r)) rows)" for rows :: "partRow list"
    by simp
  then have h3: "map r_partType (eventParticleRows defaultConf exExt (exCol 1 10 0)
      [exTrack 0 0.3, exTrack 1 1] [exV0] 0 0) =
     [kTrack, kV0Child, kV0Child, kV0, kPhiChild, kPhiChild, kPhi]"
    by (simp only: ex_event_types) simp
  from emission_order [OF h1 h2] h1 h2 h3 show ?thesis by blast
qed

subsection \<open>Enumeration of track pairs\<close>

text \<open>
  C7. Over a track table of \<open>N\<close> rows the pair enumeration yields \<open>N * (N - 1) / 2\<close>
  pairs; they are the pairs of rows at the positions \<open>(i, j)\<close> with \<open>i < j < N\<close>, each
  position pair exactly once. No enumerated pair has two legs of the same global
  index when the global indices of the table are distinct, and the loop body leaves
  at once on a pair whose legs have the same global index.
\<close>

theorem pair_enumeration:
  "length (combinationsStrictlyUpper tracks) = length tracks * (length tracks - 1) div 2 \<and>
   combinationsStrictlyUpper tracks =
     map (\<lambda>(i, j). (tracks ! i, tracks ! j)) (combinationsStrictlyUpper [0..<length tracks]) \<and>
   distinct (combinationsStrictlyUpper [0..<length tracks]) \<and>
   set (combinationsStrictlyUpper [0..<length tracks]) = {(i, j). i < j \<and> j < length tracks} \<and>
   (distinct (map globalIndex tracks) \<longrightarrow>
      (\<forall>(p1, p2) \<in> set (combinationsStrictlyUpper tracks). globalIndex p1 \<noteq> globalIndex p2)) \<and>
   (globalIndex p1 = globalIndex p2 \<longrightarrow> phiBody cfg ext col ids (p1, p2) s = s)"
proof (intro conjI impI)
  show "length (combinationsStrictlyUpper tracks) = length tracks * (length tracks - 1) div 2"
    by (rule length_combinations)
  show "combinationsStrictlyUpper tracks =
     map (\<lambda>(i, j). (tracks ! i, tracks ! j)) (combinationsStrictlyUpper [0..<length tracks])"
    by (rule combinations_nth)
  show "distinct (combinationsStrictlyUpper [0..<length tracks])"
    by (rule distinct_combinations) simp
  show "set (combinationsStrictlyUpper [0..<length tracks]) = {(i, j). i < j \<and> j < length tracks}"
    by (simp add: set_combinations_upt)
next
  assume d: "distinct (map globalIndex tracks)"
  show "\<forall>(p1, p2) \<in> set (combinationsStrictlyUpper tracks). globalIndex p1 \<noteq> globalIndex p2"
  proof (clarify)
    fix a b
    assume "(a, b) \<in> set (combinationsStrictlyUpper tracks)" and eq: "globalIndex a = globalIndex b"
    then have "(globalIndex a, globalIndex b) \<in> set (combinationsStrictlyUpper (map globalIndex tracks))"
      by (force simp: combinations_map)
    with d have "globalIndex a \<noteq> globalIndex b"
      by (rule combinations_legs_differ)
    with eq show False by simp
  qed
next
  assume "globalIndex p1 = globalIndex p2"
  then show "phiBody cfg ext col ids (p1, p2) s = s"
    by (rule phiBody_same_index)
qed

theorem pair_enumeration_witness:
  "length (combinationsStrictlyUpper [exTrack 0 0.3, exTrack 1 1, exTrack 2 1]) = 3 \<and>
   combinationsStrictlyUpper [exTrack 0 0.3, exTrack 1 1, exTrack 2 1] =
     [(exTrack 0 0.3, exTrack 1 1), (exTrack 0 0.3, exTrack 2 1), (exTrack 1 1, exTrack 2 1)] \<and>
   distinct (map globalIndex [exTrack 0 0.3, exTrack 1 1, exTrack 2 1]) \<and>
   globalIndex (exTrack 0 0.3) \<noteq> globalIndex (exTrack 1 1) \<and>
   globalIndex (exTrack 1 1) = globalIndex (exTrack 1 0.3) \<and>
   phiBody defaultConf exExt (exCol 1 10 0) [1] (exTrack 1 1, exTrack 1 0.3) exState = exState"
proof -
  let ?ts = "[exTrack 0 0.3, exTrack 1 1, exTrack 2 1]"
  have h1: "distinct (map globalIndex ?ts)"
    by (simp add: exTrack_def)
  have h2: "globalIndex (exTrack 1 1) = globalIndex (exTrack 1 0.3)"
    by (simp add: exTrack_def)
  have h3: "(exTrack 0 0.3, exTrack 1 1) \<in> set (combinationsStrictlyUpper ?ts)"
    by simp
  have h4: "combinationsStrictlyUpper ?ts =
     [(exTrack 0 0.3, exTrack 1 1), (exTrack 0 0.3, exTrack 2 1), (exTrack 1 1, exTrack 2 1)]"
    by simp
  note t = pair_enumeration [where tracks = ?ts and ?p1.0 = "exTrack 1 1" and ?p2.0 = "exTrack 1 0.3"
      and cfg = defaultConf and ext = exExt and col = "exCol 1 10 0" and ids = "[1]" and s = exState]
  from t have len: "length (combinationsStrictlyUpper ?ts) = 3"
    by simp
  from t h1 h3 have ne: "globalIndex (exTrack 0 0.3) \<noteq> globalIndex (exTrack 1 1)"
    by blast
  from t h2 have st: "phiBody defaultConf exExt (exCol 1 10 0) [1] (exTrack 1 1, exTrack 1 0.3) exState = exState"
    by blast
  from len h4 h1 ne h2 st show ?thesis by blast
qed

subsection \<open>Rejected events\<close>

text \<open>
  C8. When the event selection rejects the event, \<^verbatim>\<open>processProd\<close> returns without
  writing a particle row. With \<open>ConfIsTrigger\<close> it writes exactly one event row, holding
  the z-vertex, the multiplicity, the sphericity and the magnetic field; without it, it
  writes no row at all.
\<close>

theorem rejected_event_output:
  assumes "updateMagField ext (bc col) s = Inr s0" and "\<not> colIsSelected ext col"
  shows "\<exists>s'. processProd cfg ext col tracks fullV0s s = Inr s' \<and>
     particleRows (trace s') = particleRows (trace s) \<and>
     collisionRows (trace s') = collisionRows (trace s) @
       (if ConfIsTrigger cfg
        then [\<lparr> c_posZ = posZ col, c_mult = multFV0M col,
                c_sphericity = computeSphericity ext col tracks, c_magField = mMagField s0 \<rparr>]
        else [])"
  using updateMagField_rows [OF assms(1)]
  by (simp add: processProd_rejected [OF assms] emits_fields particleRows_simps collisionRows_simps)

theorem rejected_event_output_witness:
  "updateMagField exExt (bc (exCol 1 10 11)) initState = Inr exState \<and>
   \<not> colIsSelected exExt (exCol 1 10 11) \<and>
   (\<exists>s'. processProd (defaultConf\<lparr>ConfIsTrigger := True\<rparr>) exExt (exCol 1 10 11)
            [exTrack 0 0.3, exTrack 1 1] [exV0] initState = Inr s' \<and>
      particleRows (trace s') = [] \<and>
      collisionRows (trace s') =
        [\<lparr> c_posZ = 11, c_mult = 7, c_sphericity = 0, c_magField = 0.5 \<rparr>]) \<and>
   (\<exists>s'. processProd defaultConf exExt (exCol 1 10 11)
            [exTrack 0 0.3, exTrack 1 1] [exV0] initState = Inr s' \<and>
      particleRows (trace s') = [] \<and> collisionRows (trace s') = [])"
proof -
  have h1: "updateMagField exExt (bc (exCol 1 10 11)) initState = Inr exState"
    by (rule ex_updateMagField)
  have h2: "\<not> colIsSelected exExt (exCol 1 10 11)"
    by (simp add: exExt_def exCol_def)
  have a: "ConfIsTrigger (defaultConf\<lparr>ConfIsTrigger := True\<rparr>)" "\<not> ConfIsTrigger defaultConf"
    by (simp_all add: defaultConf_def)
  have b: "posZ (exCol 1 10 11) = 11" "multFV0M (exCol 1 10 11) = 7"
    "computeSphericity exExt c ts = 0" "mMagField exState = 0.5"
    "trace initState = []" for c ts
    by (simp_all add: exCol_def exExt_def exState_def initState_def)
  from rejected_event_output [OF h1 h2, of "defaultConf\<lparr>ConfIsTrigger := True\<rparr>"]
    rejected_event_output [OF h1 h2, of defaultConf] h1 h2
  show ?thesis
    by (simp add: a b particleRows_simps collisionRows_simps)
qed

subsection \<open>Track rows carry no cut container\<close>

text \<open>
  C9. Every row of type \<open>kTrack\<close> that an accepted event writes has the selection bitmap
  and the PID bitmap equal to 0, and the Track rows are exactly the rows of the tracks
  that pass the minimal selection, in their order: nothing else decides whether a track
  is stored.
\<close>

theorem track_rows_no_cut_container:
  assumes "updateMagField ext (bc col) s = Inr s0" and "colIsSelected ext col"
  shows "\<exists>s' rows. processProd cfg ext col tracks fullV0s s = Inr s' \<and>
     particleRows (trace s') = particleRows (trace s) @ rows \<and>
     (\<forall>r \<in> set rows. r_partType r = kTrack \<longrightarrow> r_cut r = 0 \<and> r_pidcut r = 0) \<and>
     filter (\<lambda>r. r_partType r = kTrack) rows =
       map (trackRow (int32_of (int (length (collisionRows (trace s))))))
         (filter (trkIsSelectedMinimal ext) tracks)"
proof -
  let ?cid = "int32_of (int (length (collisionRows (trace s))))"
  let ?rows = "eventParticleRows cfg ext col tracks fullV0s ?cid (int (length (particleRows (trace s))))"
  let ?s' = "emits (acceptedEffects cfg ext col tracks fullV0s (mMagField s0)
            (int32_of (outputCollision_lastIndex s0 + 1)) (outputParts_lastIndex s0 + 1)) s0"
  have "processProd cfg ext col tracks fullV0s s = Inr ?s'"
    by (rule processProd_accepted [OF assms])
  moreover have "particleRows (trace ?s') = particleRows (trace s) @ ?rows"
    using updateMagField_rows [OF assms(1)]
    by (simp add: emits_fields particleRows_simps rows_acceptedEffects
        outputCollision_lastIndex_def outputParts_lastIndex_def lastIndex_def)
  moreover have "\<forall>r \<in> set ?rows. r_partType r = kTrack \<longrightarrow> r_cut r = 0 \<and> r_pidcut r = 0"
    using kTrack_rows_zero by blast
  moreover have "filter (\<lambda>r. r_partType r = kTrack) ?rows =
      map (trackRow ?cid) (filter (trkIsSelectedMinimal ext) tracks)"
    by (rule filter_kTrack_eventParticleRows)
  ultimately show ?thesis by blast
qed

theorem track_rows_no_cut_container_witness:
  "updateMagField exExt (bc (exCol 1 10 0)) initState = Inr exState \<and>
   colIsSelected exExt (exCol 1 10 0) \<and>
   filter (trkIsSelectedMinimal exExt) [exTrack 0 0.3, exTrack 1 1] = [exTrack 1 1] \<and>
   (\<exists>s' rows. processProd defaultConf exExt (exCol 1 10 0) [exTrack 0 0.3, exTrack 1 1] [exV0] initState = Inr s' \<and>
      particleRows (trace s') = particleRows (trace initState) @ rows \<and>
      (\<forall>r \<in> set rows. r_partType r = kTrack \<longrightarrow> r_cut r = 0 \<and> r_pidcut r = 0) \<and>
      filter (\<lambda>r. r_partType r = kTrack) rows =
        map (trackRow (int32_of (int (length (collisionRows (trace initState))))))
          (filter (trkIsSelectedMinimal exExt) [exTrack 0 0.3, exTrack 1 1]))"
proof -
  have h1: "updateMagField exExt (bc (exCol 1 10 0)) initState = Inr exState"
    by (rule ex_updateMagField)
  have h2: "colIsSelected exExt (exCol 1 10 0)"
    by (simp add: exExt_def exCol_def)
  have h3: "filter (trkIsSelectedMinimal exExt) [exTrack 0 0.3, exTrack 1 1] = [exTrack 1 1]"
    by (simp add: exExt_def exTrack_def)
  from track_rows_no_cut_container [OF h1 h2] h1 h2 h3 show ?thesis by blast
qed

subsection \<open>The kaon gate on float momenta\<close>

text \<open>
  C10 (amended). The gate answers false on every input when \<open>ConfNsigmaTPCTOFKaon\<close> is
  disabled. With the switch enabled there is no finite \<^verbatim>\<open>float\<close> momentum at which
  neither branch applies: every finite \<^verbatim>\<open>float\<close> is below or above 0.4 (and on the same
  side of the \<^verbatim>\<open>double\<close> literal), so the gate answers with the test of the branch taken
  and never by falling through.
\<close>

theorem IsKaonNSigma_total_on_floats:
  "(\<not> ConfNsigmaTPCTOFKaon cfg \<longrightarrow> IsKaonNSigma cfg mom nsigmaTPCK nsigmaTOFK = False) \<and>
   (isFinite32 w \<longrightarrow>
      (valof32 w < 0.4 \<or> valof32 w > 0.4) \<and>
      (valof32 w < 0.4 \<longleftrightarrow> valof32 w < double_0_4) \<and>
      (valof32 w > 0.4 \<longleftrightarrow> valof32 w > double_0_4)) \<and>
   (isFinite32 w \<and> ConfNsigmaTPCTOFKaon cfg \<longrightarrow>
      IsKaonNSigma cfg (valof32 w) nsigmaTPCK nsigmaTOFK =
        (if valof32 w < 0.4 then \<bar>nsigmaTPCK\<bar> < ConfNsigmaTPCKaon cfg
         else Hypot nsigmaTOFK nsigmaTPCK < ConfNsigmaCombinedKaon cfg))"
proof (intro conjI impI)
  assume "\<not> ConfNsigmaTPCTOFKaon cfg"
  then show "IsKaonNSigma cfg mom nsigmaTPCK nsigmaTOFK = False"
    by (simp add: IsKaonNSigma_def)
next
  show "valof32 w < 0.4 \<or> valof32 w > 0.4"
    "valof32 w < 0.4 \<longleftrightarrow> valof32 w < double_0_4"
    "valof32 w > 0.4 \<longleftrightarrow> valof32 w > double_0_4"
    using valof32_branches [of w] by blast+
next
  assume "isFinite32 w \<and> ConfNsigmaTPCTOFKaon cfg"
  moreover have "valof32 w < 0.4 \<or> valof32 w > 0.4"
    using valof32_branches [of w] by blast
  ultimately show "IsKaonNSigma cfg (valof32 w) nsigmaTPCK nsigmaTOFK =
        (if valof32 w < 0.4 then \<bar>nsigmaTPCK\<bar> < ConfNsigmaTPCKaon cfg
         else Hypot nsigmaTOFK nsigmaTPCK < ConfNsigmaCombinedKaon cfg)"
    by (auto simp: IsKaonNSigma_def)
qed

theorem IsKaonNSigma_total_on_floats_witness:
  "\<not> ConfNsigmaTPCTOFKaon (defaultConf\<lparr>ConfNsigmaTPCTOFKaon := False\<rparr>) \<and>
   IsKaonNSigma (defaultConf\<lparr>ConfNsigmaTPCTOFKaon := False\<rparr>) 0.3 0 0 = False \<and>
   isFinite32 float_0_4 \<and> ConfNsigmaTPCTOFKaon defaultConf \<and>
   valof32 float_0_4 > 0.4 \<and>
   IsKaonNSigma defaultConf (valof32 float_0_4) 3 4 =
     (Hypot 4 3 < ConfNsigmaCombinedKaon defaultConf) \<and>
   isFinite32 float_0_3 \<and> valof32 float_0_3 < 0.4 \<and>
   IsKaonNSigma defaultConf (valof32 float_0_3) 3 4 = (\<bar>3 :: real\<bar> < ConfNsigmaTPCKaon defaultConf)"
proof -
  have h1: "\<not> ConfNsigmaTPCTOFKaon (defaultConf\<lparr>ConfNsigmaTPCTOFKaon := False\<rparr>)"
    by simp
  have h2: "isFinite32 float_0_4 \<and> ConfNsigmaTPCTOFKaon defaultConf"
    "isFinite32 float_0_3 \<and> ConfNsigmaTPCTOFKaon defaultConf"
    by (simp_all add: isFinite32_def f32_exponent_def float_0_4_def float_0_3_def defaultConf_def)
  have h3: "valof32 float_0_4 > 0.4"
    by (simp only: valof32_float_0_4) simp
  have "valof32 float_0_3 = 10066330 / 2 ^ 25"
    by (simp add: valof32_def float_0_3_def f32_sign_def f32_exponent_def f32_fraction_def)
  then have h4: "valof32 float_0_3 < 0.4"
    by simp
  from h4 have h5: "\<not> valof32 float_0_3 > 0.4"
    by simp
  from h3 have h6: "\<not> valof32 float_0_4 < 0.4"
    by simp
  note t1 = IsKaonNSigma_total_on_floats [where cfg = "defaultConf\<lparr>ConfNsigmaTPCTOFKaon := False\<rparr>"
      and mom = "0.3" and nsigmaTPCK = 0 and nsigmaTOFK = 0 and w = float_0_4]
  note t2 = IsKaonNSigma_total_on_floats [where cfg = defaultConf and mom = 0
      and nsigmaTPCK = 3 and nsigmaTOFK = 4 and w = float_0_4]
  note t3 = IsKaonNSigma_total_on_floats [where cfg = defaultConf and mom = 0
      and nsigmaTPCK = 3 and nsigmaTOFK = 4 and w = float_0_3]
  from t1 h1 have c1: "IsKaonNSigma (defaultConf\<lparr>ConfNsigmaTPCTOFKaon := False\<rparr>) 0.3 0 0 = False"
    by blast
  from t2 h2(1) h6 have c2: "IsKaonNSigma defaultConf (valof32 float_0_4) 3 4 =
     (Hypot 4 3 < ConfNsigmaCombinedKaon defaultConf)"
    by simp
  from t3 h2(2) h4 have c3: "IsKaonNSigma defaultConf (valof32 float_0_3) 3 4 =
     (\<bar>3 :: real\<bar> < ConfNsigmaTPCKaon defaultConf)"
    by simp
  from h1 c1 h2 h3 c2 h4 c3 show ?thesis by blast
qed

text \<open>
  C10 as stated fails at the \<^verbatim>\<open>float\<close> 0.4: the pattern \<^verbatim>\<open>0x3ECCCCCD\<close> denotes
  13421773 / 2^25, the binary32 value nearest to 0.4 (its lower neighbour 13421772 / 2^25
  is farther away). It lies above the literal, the branch \<open>mom > 0.4\<close> is taken and,
  with both n-sigma values 0, the gate answers true.
\<close>

theorem kaon_gate_at_float_0_4_counterexample:
  "isFinite32 float_0_4 \<and>
   valof32 float_0_4 = 13421773 / 2 ^ 25 \<and>
   \<bar>13421773 / 2 ^ 25 - 0.4 :: real\<bar> < \<bar>13421772 / 2 ^ 25 - 0.4\<bar> \<and>
   double_0_4 < valof32 float_0_4 \<and>
   ConfNsigmaTPCTOFKaon defaultConf \<and>
   IsKaonNSigma defaultConf (valof32 float_0_4) 0 0 = True"
proof -
  have a: "isFinite32 float_0_4"
    by (simp add: isFinite32_def f32_exponent_def float_0_4_def)
  have b: "\<bar>13421773 / 2 ^ 25 - 0.4 :: real\<bar> < \<bar>13421772 / 2 ^ 25 - 0.4\<bar>"
    by simp
  have c: "double_0_4 < valof32 float_0_4"
    by (simp only: valof32_float_0_4 between_floats)
  have d: "ConfNsigmaTPCTOFKaon defaultConf"
    by (simp add: defaultConf_def)
  have e: "IsKaonNSigma defaultConf (valof32 float_0_4) 0 0 = True"
    unfolding valof32_float_0_4
    by (simp add: IsKaonNSigma_def defaultConf_def Hypot_less_iff)
  from a b c d e valof32_float_0_4 show ?thesis by blast
qed

end
